theory Spec2Isabelle
  imports
    Complex_Main
    "HOL-Library.Char_ord"
    "HOL-Library.List_Lexorder"
    "HOL-Library.Multiset"
    "HOL-Library.Sublist"
begin

section \<open>Twicketer: the monitoring and deduplication core\<close>

text \<open>
  A shallow embedding of \<^verbatim>\<open>twicket_bot/core/bot.py\<close>,
  \<^verbatim>\<open>twicket_bot/services/api_client.py\<close>, \<^verbatim>\<open>twicket_bot/models/ticket.py\<close>
  and \<^verbatim>\<open>twicket_bot/core/config.py\<close>. Mutation of the bot object is explicit
  state passing, a raised exception is the \<open>Inl\<close> of a sum, and the answers of the
  external ports (the browser page that performs the HTTP calls, \<^verbatim>\<open>webbrowser.open\<close>)
  are inputs of the functions that consume them.
\<close>

subsection \<open>Exceptions and the values a JSON response decodes to\<close>

text \<open>
  Only subclasses of \<^verbatim>\<open>Exception\<close> are modelled: these are what the handlers of the
  bot catch. \<open>OtherError\<close> stands for whatever a port raises (a Playwright error,
  \<^verbatim>\<open>webbrowser.Error\<close>).
\<close>

datatype exn = AttributeError | TypeError | KeyError | ValueError | OtherError string

text \<open>
  The value \<^verbatim>\<open>page.evaluate\<close> hands back: \<^verbatim>\<open>None\<close>, a bool, a number, a
  \<^verbatim>\<open>str\<close>, a \<^verbatim>\<open>list\<close> or a \<^verbatim>\<open>dict\<close> with string keys. A dict is an association
  list read with \<open>map_of\<close>; the keys of a decoded dict are distinct, so which of two
  equal keys wins never matters. A number is its value (\<^verbatim>\<open>1\<close> and \<^verbatim>\<open>1.0\<close> are equal
  in Python as well).
\<close>

datatype json =
    JNull
  | JBool bool
  | JNum real
  | JStr string
  | JArr "json list"
  | JObj "(string \<times> json) list"

text \<open>Python's truth value of a decoded value (\<^verbatim>\<open>if result:\<close>).\<close>

fun truthy :: "json \<Rightarrow> bool" where
  "truthy JNull = False"
| "truthy (JBool b) = b"
| "truthy (JNum r) = (r \<noteq> 0)"
| "truthy (JStr s) = (s \<noteq> [])"
| "truthy (JArr xs) = (xs \<noteq> [])"
| "truthy (JObj kvs) = (kvs \<noteq> [])"

text \<open>\<^verbatim>\<open>d.get(k, default)\<close> on a dict.\<close>

definition dict_get :: "(string \<times> json) list \<Rightarrow> string \<Rightarrow> json \<Rightarrow> json" where
  "dict_get kvs k d = (case map_of kvs k of None \<Rightarrow> d | Some v \<Rightarrow> v)"

text \<open>
  \<^verbatim>\<open>x.get(k, default)\<close> on any decoded value: only a dict has the method, every
  other value raises \<^verbatim>\<open>AttributeError\<close>.
\<close>

fun py_get :: "json \<Rightarrow> string \<Rightarrow> json \<Rightarrow> exn + json" where
  "py_get (JObj kvs) k d = Inr (dict_get kvs k d)"
| "py_get _ k d = Inl AttributeError"

text \<open>
  \<^verbatim>\<open>x[k]\<close> with a string key: a dict without the key raises \<^verbatim>\<open>KeyError\<close>; a str, a
  list, a number or a bool raises \<^verbatim>\<open>TypeError\<close>.
\<close>

fun py_getitem :: "json \<Rightarrow> string \<Rightarrow> exn + json" where
  "py_getitem (JObj kvs) k = (case map_of kvs k of None \<Rightarrow> Inl KeyError | Some v \<Rightarrow> Inr v)"
| "py_getitem _ k = Inl TypeError"

text \<open>
  \<^verbatim>\<open>for plan in x\<close>: a list yields its elements, a str its one-character strings, a
  dict its keys; \<^verbatim>\<open>None\<close>, a bool and a number are not iterable.
\<close>

fun py_iter :: "json \<Rightarrow> exn + json list" where
  "py_iter (JArr xs) = Inr xs"
| "py_iter (JStr s) = Inr (map (\<lambda>c. JStr [c]) s)"
| "py_iter (JObj kvs) = Inr (map (\<lambda>kv. JStr (fst kv)) kvs)"
| "py_iter _ = Inl TypeError"

subsection \<open>The data classes of \<^verbatim>\<open>models/ticket.py\<close> and \<^verbatim>\<open>core/config.py\<close>\<close>

text \<open>
  \<open>listing_id\<close> and \<open>listing_type\<close> are the fields \<^verbatim>\<open>id\<close> and \<^verbatim>\<open>type\<close>. A
  \<^verbatim>\<open>str\<close> is its UTF-8 byte string: comparing byte strings lexicographically orders
  them as Python orders the strings by code point. \<open>price\<close> is the value of the
  (finite) float.
\<close>

record TicketListing =
  listing_id :: string
  seats :: string
  listing_type :: string
  area :: string
  "section" :: string
  row :: string
  price :: real

text \<open>The dataclass stores whatever the response held; it checks no type.\<close>

record DeliveryPlan =
  delivery_method :: json
  title :: json

record TicketBlock =
  block_id :: json

record TicketAvailability =
  available :: bool
  block :: "TicketBlock option"
  delivery_plan :: "DeliveryPlan list"

record TwicketConfig =
  event_id :: string
  time_delay :: real
  min_seats :: int
  max_seats :: int
  max_price :: "real option"
  skip_meetup_delivery :: bool

subsection \<open>\<^verbatim>\<open>TwicketAPIClient.get_ticket_availability\<close>\<close>

text \<open>One element of the list comprehension over \<^verbatim>\<open>result.get('deliveryPlan', [])\<close>.\<close>

definition make_plan :: "json \<Rightarrow> exn + DeliveryPlan" where
  "make_plan plan =
     (case py_get plan ''deliveryMethod'' (JNum 0) of
        Inl e \<Rightarrow> Inl e
      | Inr m \<Rightarrow>
         (case py_get plan ''title'' (JStr '''') of
            Inl e \<Rightarrow> Inl e
          | Inr t \<Rightarrow> Inr \<lparr>delivery_method = m, title = t\<rparr>))"

text \<open>The comprehension builds the list from the left and stops at the first raise.\<close>

fun make_plans :: "json list \<Rightarrow> exn + DeliveryPlan list" where
  "make_plans [] = Inr []"
| "make_plans (p # ps) =
     (case make_plan p of
        Inl e \<Rightarrow> Inl e
      | Inr d \<Rightarrow> (case make_plans ps of Inl e \<Rightarrow> Inl e | Inr ds \<Rightarrow> Inr (d # ds)))"

text \<open>
  The argument is what \<^verbatim>\<open>page.evaluate\<close> did for the availability URL: it raised, or
  it returned the decoded body. The result is the raise, \<^verbatim>\<open>None\<close>, or the
  \<^verbatim>\<open>TicketAvailability\<close> object.
\<close>

definition get_ticket_availability :: "exn + json \<Rightarrow> exn + TicketAvailability option" where
  "get_ticket_availability page_evaluate =
     (case page_evaluate of
        Inl e \<Rightarrow> Inl e
      | Inr result \<Rightarrow>
          if truthy result then
            (case py_get result ''available'' (JBool False) of
               Inl e \<Rightarrow> Inl e
             | Inr avail \<Rightarrow>
                (case (if truthy avail then py_get result ''block'' JNull else Inr avail) of
                   Inl e \<Rightarrow> Inl e
                 | Inr blk \<Rightarrow>
                     if truthy avail \<and> truthy blk then
                       (case py_get result ''deliveryPlan'' (JArr []) of
                          Inl e \<Rightarrow> Inl e
                        | Inr plans \<Rightarrow>
                           (case py_iter plans of
                              Inl e \<Rightarrow> Inl e
                            | Inr ps \<Rightarrow>
                               (case make_plans ps of
                                  Inl e \<Rightarrow> Inl e
                                | Inr dp \<Rightarrow>
                                   (case py_getitem result ''block'' of
                                      Inl e \<Rightarrow> Inl e
                                    | Inr b \<Rightarrow>
                                       (case py_getitem b ''blockId'' of
                                          Inl e \<Rightarrow> Inl e
                                        | Inr bid \<Rightarrow>
                                            Inr (Some \<lparr>available = True,
                                                       block = Some \<lparr>block_id = bid\<rparr>,
                                                       delivery_plan = dp\<rparr>))))))
                     else Inr (Some \<lparr>available = False, block = None, delivery_plan = []\<rparr>)))
          else Inr None)"

subsection \<open>\<^verbatim>\<open>int(listing.seats)\<close>\<close>

text \<open>
  Python's \<^verbatim>\<open>int\<close> on a \<^verbatim>\<open>str\<close>, for ASCII text: surrounding whitespace is
  dropped, one sign is allowed, then decimal digits, with single underscores allowed
  between digits; anything else raises \<^verbatim>\<open>ValueError\<close>. (Python also reads the
  decimal digits and the whitespace of other scripts; the seat strings come from
  \<^verbatim>\<open>str(result['splits'][0])\<close> and those are not covered here.)
\<close>

definition is_space :: "char \<Rightarrow> bool" where
  "is_space c = (c \<in> set [CHR '' '', CHR 0x09, CHR 0x0A, CHR 0x0B, CHR 0x0C, CHR 0x0D])"

definition strip :: "string \<Rightarrow> string" where
  "strip s = rev (dropWhile is_space (rev (dropWhile is_space s)))"

definition digit_val :: "char \<Rightarrow> nat option" where
  "digit_val c =
     (if CHR ''0'' \<le> c \<and> c \<le> CHR ''9'' then Some (of_char c - 48) else None)"

fun digits :: "nat \<Rightarrow> string \<Rightarrow> nat option" where
  "digits acc [] = Some acc"
| "digits acc [c] = (case digit_val c of None \<Rightarrow> None | Some v \<Rightarrow> Some (10 * acc + v))"
| "digits acc (c # d # cs) =
     (if c = CHR ''_'' then
        (case digit_val d of None \<Rightarrow> None | Some v \<Rightarrow> digits (10 * acc + v) cs)
      else
        (case digit_val c of None \<Rightarrow> None | Some v \<Rightarrow> digits (10 * acc + v) (d # cs)))"

definition unsigned :: "string \<Rightarrow> nat option" where
  "unsigned u =
     (case u of
        [] \<Rightarrow> None
      | c # cs \<Rightarrow> (case digit_val c of None \<Rightarrow> None | Some v \<Rightarrow> digits v cs))"

definition py_int :: "string \<Rightarrow> exn + int" where
  "py_int s =
     (case strip s of
        [] \<Rightarrow> Inl ValueError
      | c # cs \<Rightarrow>
          if c = CHR ''-'' then
            (case unsigned cs of None \<Rightarrow> Inl ValueError | Some n \<Rightarrow> Inr (- int n))
          else if c = CHR ''+'' then
            (case unsigned cs of None \<Rightarrow> Inl ValueError | Some n \<Rightarrow> Inr (int n))
          else
            (case unsigned (c # cs) of None \<Rightarrow> Inl ValueError | Some n \<Rightarrow> Inr (int n)))"

subsection \<open>The state of a \<^verbatim>\<open>TwicketBot\<close>\<close>

text \<open>
  The status messages of the bot, one constructor for each f-string of the code with
  the values the f-string formats; the text itself is display only.
\<close>

datatype message =
    StartingBrowser
  | LoggingIn
  | AuthenticationFailed
  | AuthenticationSuccessful
  | InitializationFailed exn
  | EnteringMainLoop
  | LogsWrittenTo
  | NoTicketsFound
  | TicketsFound nat
  | ErrorMessage exn
  | SkippingTooFewSeats string
  | SkippingTooManySeats string
  | SkippingPriceTooHigh real
  | TicketUnavailable
  | SkippingMeetupDelivery
  | AlreadyOpenedTicket string string
  | NoBlockInformation string
  | OpeningTicket string string
  | OpenedTicketPage string string
  | FailedToOpenBrowser exn

text \<open>
  An entry of \<^verbatim>\<open>found_tickets\<close>: the keys \<^verbatim>\<open>'id'\<close>, \<^verbatim>\<open>'section'\<close>, \<^verbatim>\<open>'row'\<close>,
  \<^verbatim>\<open>'seats'\<close>, \<^verbatim>\<open>'price'\<close> and \<^verbatim>\<open>'status'\<close>. The key \<^verbatim>\<open>'timestamp'\<close> holds
  the wall clock and is left out, as is the time stamp of a status message.
\<close>

record ticket_info =
  info_id :: string
  info_section :: string
  info_row :: string
  info_seats :: string
  info_price :: real
  status :: string

text \<open>
  \<open>api_client\<close> says whether the attribute holds a client. \<open>opened_pages\<close> lists
  the calls of \<^verbatim>\<open>webbrowser.open\<close> that returned, oldest first, each as the listing
  being processed and the block id its URL was built from (the URL is
  \<^verbatim>\<open>.../app/block/{block_id},{listing.seats}\<close>; \<^verbatim>\<open>notify_ticket_found\<close> follows every
  one of them and raises nothing). \<open>found_log\<close> lists the listings of the
  \<^verbatim>\<open>Found ticket\<close> lines the loop logs, oldest first.
\<close>

record TwicketBot =
  api_client :: bool
  auth_token :: "string option"
  status_messages :: "(message \<times> string) list"
  found_tickets :: "string \<rightharpoonup> ticket_info"
  opened_tickets :: "string set"
  tickets_processed :: nat
  tickets_opened :: nat
  opened_pages :: "(TicketListing \<times> json) list"
  found_log :: "TicketListing list"

text \<open>\<^verbatim>\<open>TwicketBot.__init__\<close>.\<close>

definition new_bot :: TwicketBot where
  "new_bot =
     \<lparr>api_client = False, auth_token = None, status_messages = [],
      found_tickets = Map.empty, opened_tickets = {}, tickets_processed = 0,
      tickets_opened = 0, opened_pages = [], found_log = []\<rparr>"

text \<open>\<^verbatim>\<open>_add_status_message\<close>: append, and keep only the last ten.\<close>

definition add_status_message :: "message \<Rightarrow> string \<Rightarrow> TwicketBot \<Rightarrow> TwicketBot" where
  "add_status_message m style s =
     (let ms = status_messages s @ [(m, style)]
      in s\<lparr>status_messages := (if length ms > 10 then tl ms else ms)\<rparr>)"

text \<open>
  \<^verbatim>\<open>d['status'] = v\<close> on the entry stored under a key. The code holds the entry
  object itself (\<^verbatim>\<open>ticket_info\<close>); no entry is ever replaced or removed, so the
  object is the one the key leads to.
\<close>

definition set_status :: "string \<Rightarrow> string \<Rightarrow> TwicketBot \<Rightarrow> TwicketBot" where
  "set_status k v s =
     (case found_tickets s k of
        None \<Rightarrow> s
      | Some info \<Rightarrow> s\<lparr>found_tickets := (found_tickets s)(k \<mapsto> info\<lparr>status := v\<rparr>)\<rparr>)"

subsection \<open>\<^verbatim>\<open>TwicketBot._should_skip_listing\<close>\<close>

text \<open>\<^verbatim>\<open>plan.delivery_method == 1\<close>: the number one, and \<^verbatim>\<open>True\<close>, equal \<^verbatim>\<open>1\<close>.\<close>

fun equals_one :: "json \<Rightarrow> bool" where
  "equals_one (JNum r) = (r = 1)"
| "equals_one (JBool b) = b"
| "equals_one _ = False"

text \<open>The loop over the delivery plans: it returns at the first meetup plan.\<close>

fun has_meetup :: "DeliveryPlan list \<Rightarrow> bool" where
  "has_meetup [] = False"
| "has_meetup (plan # plans) =
     (if equals_one (delivery_method plan) then True else has_meetup plans)"

text \<open>
  The body of the branch \<^verbatim>\<open>if not ticket_availability or not
  ticket_availability.available\<close>. Its key has three parts, not the four of the key
  \<^verbatim>\<open>_process_listing\<close> stores the entry under.
\<close>

definition ticket_unavailable :: "TicketListing \<Rightarrow> TwicketBot \<Rightarrow> TwicketBot" where
  "ticket_unavailable listing s =
     (let s1 = add_status_message TicketUnavailable ''dim red'' s;
          ticket_key = section listing @ ''-'' @ row listing @ ''-'' @ seats listing
      in if ticket_key \<in> dom (found_tickets s1)
         then set_status ticket_key ''No Longer Available'' s1
         else s1)"

text \<open>
  The result is the raise or the returned bool, with the state as the call leaves it.
  \<^verbatim>\<open>float(listing.price)\<close> is the price itself.
\<close>

definition should_skip_listing ::
  "TwicketConfig \<Rightarrow> TicketListing \<Rightarrow> TicketAvailability option \<Rightarrow> TwicketBot
     \<Rightarrow> (exn + bool) \<times> TwicketBot" where
  "should_skip_listing config listing ticket_availability s =
     (case py_int (seats listing) of
        Inl e \<Rightarrow> (Inl e, s)
      | Inr n \<Rightarrow>
          if n < min_seats config then
            (Inr True, add_status_message (SkippingTooFewSeats (seats listing)) ''dim yellow'' s)
          else if n \<ge> max_seats config then
            (Inr True, add_status_message (SkippingTooManySeats (seats listing)) ''dim yellow'' s)
          else if (case max_price config of None \<Rightarrow> False | Some m \<Rightarrow> price listing > m) then
            (Inr True, add_status_message (SkippingPriceTooHigh (price listing)) ''dim yellow'' s)
          else
            (case ticket_availability of
               None \<Rightarrow> (Inr True, ticket_unavailable listing s)
             | Some a \<Rightarrow>
                 if \<not> available a then (Inr True, ticket_unavailable listing s)
                 else if skip_meetup_delivery config \<and> delivery_plan a \<noteq> []
                         \<and> has_meetup (delivery_plan a) then
                   (Inr True, add_status_message SkippingMeetupDelivery ''dim yellow'' s)
                 else (Inr False, s)))"

subsection \<open>\<^verbatim>\<open>TwicketBot._process_listing\<close>\<close>

text \<open>
  What the two ports answer while one listing is processed: \<open>page_evaluate\<close> is the
  outcome of the availability request (a raise, or the decoded body), and
  \<open>webbrowser_open\<close> says whether \<^verbatim>\<open>webbrowser.open\<close> raises (\<open>Some e\<close>) or returns.
\<close>

record ports =
  page_evaluate :: "exn + json"
  webbrowser_open :: "exn option"

text \<open>\<^verbatim>\<open>not self.api_client or not self.auth_token\<close> is false.\<close>

definition ready :: "TwicketBot \<Rightarrow> bool" where
  "ready s = (api_client s \<and> (case auth_token s of None \<Rightarrow> False | Some t \<Rightarrow> t \<noteq> []))"

text \<open>The key \<^verbatim>\<open>f"{listing.section}-{listing.row}-{listing.seats}-{listing.id}"\<close>.\<close>

definition ticket_key :: "TicketListing \<Rightarrow> string" where
  "ticket_key listing =
     section listing @ ''-'' @ row listing @ ''-'' @ seats listing @ ''-'' @ listing_id listing"

text \<open>The insert or the in-place update of the entry under the key.\<close>

definition record_observation :: "TicketListing \<Rightarrow> TwicketBot \<Rightarrow> TwicketBot" where
  "record_observation listing s =
     (case found_tickets s (ticket_key listing) of
        None \<Rightarrow>
          s\<lparr>found_tickets := (found_tickets s)(ticket_key listing \<mapsto>
               \<lparr>info_id = listing_id listing, info_section = section listing,
                info_row = row listing, info_seats = seats listing,
                info_price = price listing, status = ''Checking...''\<rparr>)\<rparr>
      | Some info \<Rightarrow>
          s\<lparr>found_tickets := (found_tickets s)(ticket_key listing \<mapsto>
               info\<lparr>info_id := listing_id listing, status := ''Checking...''\<rparr>)\<rparr>)"

text \<open>
  The \<^verbatim>\<open>try\<close> block around \<^verbatim>\<open>webbrowser.open\<close>, with its handler: a raise of the
  call leaves the set of opened ids as it was.
\<close>

definition open_ticket ::
  "exn option \<Rightarrow> TicketListing \<Rightarrow> json \<Rightarrow> TwicketBot \<Rightarrow> (exn + bool) \<times> TwicketBot" where
  "open_ticket browser listing bid s =
     (case browser of
        Some e \<Rightarrow>
          (Inr False,
           add_status_message (FailedToOpenBrowser e) ''red bold''
             (set_status (ticket_key listing) ''Failed to Open'' s))
      | None \<Rightarrow>
          (Inr True,
           add_status_message (OpenedTicketPage (section listing) (row listing)) ''green bold''
             (set_status (ticket_key listing) ''Opened in Browser''
               (s\<lparr>opened_pages := opened_pages s @ [(listing, bid)],
                  opened_tickets := insert (listing_id listing) (opened_tickets s),
                  tickets_opened := tickets_opened s + 1\<rparr>))))"

text \<open>
  The result is the raise or the returned bool, with the state as the call leaves it:
  what was written before a raise stays written.
\<close>

definition process_listing ::
  "TwicketConfig \<Rightarrow> ports \<Rightarrow> TicketListing \<Rightarrow> TwicketBot \<Rightarrow> (exn + bool) \<times> TwicketBot" where
  "process_listing config io listing s =
     (if \<not> ready s then (Inr False, s)
      else
        let s1 = record_observation listing (s\<lparr>tickets_processed := tickets_processed s + 1\<rparr>)
        in case get_ticket_availability (page_evaluate io) of
             Inl e \<Rightarrow> (Inl e, s1)
           | Inr ticket_availability \<Rightarrow>
              (case should_skip_listing config listing ticket_availability s1 of
                 (Inl e, s2) \<Rightarrow> (Inl e, s2)
               | (Inr skip, s2) \<Rightarrow>
                   if skip then (Inr False, set_status (ticket_key listing) ''Skipped'' s2)
                   else if listing_id listing \<in> opened_tickets s2 then
                     (Inr False,
                      add_status_message (AlreadyOpenedTicket (section listing) (row listing))
                        ''dim yellow''
                        (set_status (ticket_key listing) ''Already Opened'' s2))
                   else
                     (case ticket_availability of
                        None \<Rightarrow> (Inl AttributeError, s2)
                      | Some a \<Rightarrow>
                         (case block a of
                            None \<Rightarrow>
                              (Inr False,
                               add_status_message (NoBlockInformation (section listing)) ''red''
                                 (set_status (ticket_key listing) ''No Block Info'' s2))
                          | Some b \<Rightarrow>
                              open_ticket (webbrowser_open io) listing (block_id b)
                                (add_status_message
                                   (OpeningTicket (section listing) (row listing))
                                   ''cyan bold'' s2)))))"

subsection \<open>\<^verbatim>\<open>TwicketBot.run_monitoring_loop\<close>\<close>

text \<open>
  A candidate is a listing of the fetched list together with what the ports answer
  while that listing is processed.
\<close>

type_synonym candidate = "TicketListing \<times> ports"

text \<open>
  The \<^verbatim>\<open>for listing in options\<close> loop. A raise of \<^verbatim>\<open>_process_listing\<close> leaves the
  loop: the result is that exception, or \<open>None\<close> when the loop ran to its end.
\<close>

fun process_listings ::
  "TwicketConfig \<Rightarrow> candidate list \<Rightarrow> TwicketBot \<Rightarrow> exn option \<times> TwicketBot" where
  "process_listings config [] s = (None, s)"
| "process_listings config (c # cs) s =
     (case process_listing config (snd c) (fst c) (s\<lparr>found_log := found_log s @ [fst c]\<rparr>) of
        (Inl e, s') \<Rightarrow> (Some e, s')
      | (Inr opened, s') \<Rightarrow> process_listings config cs s')"

text \<open>
  One pass of the body of \<^verbatim>\<open>while True\<close>, up to the sleep. \<open>fetched\<close> is what
  \<^verbatim>\<open>check_event_availability\<close> did: it raised, it returned \<^verbatim>\<open>None\<close>, or it returned
  the list. \<^verbatim>\<open>options.sort(key=lambda x: x.section)\<close> is a stable sort, as
  \<open>sort_key\<close> is.
\<close>

definition monitoring_cycle ::
  "TwicketConfig \<Rightarrow> exn + candidate list option \<Rightarrow> TwicketBot \<Rightarrow> TwicketBot" where
  "monitoring_cycle config fetched s =
     (case fetched of
        Inl e \<Rightarrow> add_status_message (ErrorMessage e) ''red'' s
      | Inr None \<Rightarrow> add_status_message NoTicketsFound ''dim'' s
      | Inr (Some options) \<Rightarrow>
          if options = [] then add_status_message NoTicketsFound ''dim'' s
          else
            (case process_listings config (sort_key (\<lambda>c. section (fst c)) options)
                    (add_status_message (TicketsFound (length options)) ''cyan bold'' s) of
               (None, s') \<Rightarrow> s'
             | (Some e, s') \<Rightarrow> add_status_message (ErrorMessage e) ''red'' s'))"

text \<open>The passes of the loop up to an interrupt, one element of the list for each.\<close>

fun monitoring_cycles ::
  "TwicketConfig \<Rightarrow> (exn + candidate list option) list \<Rightarrow> TwicketBot \<Rightarrow> TwicketBot" where
  "monitoring_cycles config [] s = s"
| "monitoring_cycles config (fetched # later) s =
     monitoring_cycles config later (monitoring_cycle config fetched s)"

text \<open>
  \<^verbatim>\<open>TwicketBot.initialize\<close>. \<open>browser\<close> says whether starting the browser raises,
  \<open>login\<close> is the raise or the return value of \<^verbatim>\<open>api_client.login\<close>.
\<close>

definition initialize :: "exn option \<Rightarrow> exn + string option \<Rightarrow> TwicketBot \<Rightarrow> bool \<times> TwicketBot" where
  "initialize browser login s =
     (let s1 = add_status_message StartingBrowser ''yellow'' s
      in case browser of
           Some e \<Rightarrow> (False, add_status_message (InitializationFailed e) ''red'' s1)
         | None \<Rightarrow>
            (let s2 = add_status_message LoggingIn ''yellow'' (s1\<lparr>api_client := True\<rparr>)
             in case login of
                  Inl e \<Rightarrow> (False, add_status_message (InitializationFailed e) ''red'' s2)
                | Inr token \<Rightarrow>
                   (let s3 = s2\<lparr>auth_token := token\<rparr>
                    in if ready s3
                       then (True, add_status_message AuthenticationSuccessful ''green'' s3)
                       else (False, add_status_message AuthenticationFailed ''red'' s3))))"

text \<open>
  The whole method: when \<^verbatim>\<open>initialize\<close> fails the process exits before the loop,
  otherwise the loop runs; \<open>cycles\<close> are its passes up to the interrupt.
\<close>

definition run_monitoring_loop ::
  "TwicketConfig \<Rightarrow> exn option \<Rightarrow> exn + string option \<Rightarrow> (exn + candidate list option) list
     \<Rightarrow> TwicketBot \<Rightarrow> TwicketBot" where
  "run_monitoring_loop config browser login cycles s =
     (case initialize browser login s of
        (False, s') \<Rightarrow> s'
      | (True, s') \<Rightarrow>
          monitoring_cycles config cycles
            (add_status_message LogsWrittenTo ''dim''
               (add_status_message EnteringMainLoop ''cyan'' s')))"

subsection \<open>Python floats\<close>

text \<open>
  A Python float is an IEEE 754 binary64 number, and every operation on floats
  computes the exact result and rounds it to the nearest double, ties to the even
  significand. A finite float is its value \<open>Some x\<close>, a real number of the form
  \<open>k * 2 ^ e\<close> with \<open>\<bar>k\<bar> \<le> 2 ^ 53\<close> and \<open>e \<ge> -1074\<close>, below \<open>2 ^ 1024\<close>; an infinity or a
  NaN is \<open>None\<close>.
\<close>

type_synonym pyfloat = "real option"

text \<open>
  The exponent of the spacing of the doubles around \<open>x\<close>: 52 below the exponent of
  \<open>x\<close>, and never below the exponent \<open>-1074\<close> of the subnormal numbers.
\<close>

definition quantum_exp :: "real \<Rightarrow> int" where
  "quantum_exp x = max (\<lfloor>log 2 \<bar>x\<bar>\<rfloor> - 52) (- 1074)"

text \<open>The nearest integer, the even one of the two when \<open>m\<close> lies halfway.\<close>

definition round_half_even :: "real \<Rightarrow> int" where
  "round_half_even m =
     (if m - of_int \<lfloor>m\<rfloor> < 1 / 2 then \<lfloor>m\<rfloor>
      else if 1 / 2 < m - of_int \<lfloor>m\<rfloor> then \<lfloor>m\<rfloor> + 1
      else if even \<lfloor>m\<rfloor> then \<lfloor>m\<rfloor> else \<lfloor>m\<rfloor> + 1)"

text \<open>Rounding to the nearest double, before the test for overflow.\<close>

definition nearest_double :: "real \<Rightarrow> real" where
  "nearest_double x =
     (if x = 0 then 0
      else of_int (round_half_even (x / 2 powi quantum_exp x)) * 2 powi quantum_exp x)"

text \<open>The values the doubles have, the bound of overflow left aside.\<close>

definition dyadic53 :: "real \<Rightarrow> bool" where
  "dyadic53 x = (\<exists>k e. \<bar>k\<bar> \<le> 2 ^ 53 \<and> - 1074 \<le> e \<and> x = of_int k * 2 powi e)"

text \<open>A rounded result of this magnitude or more is an infinity.\<close>

definition overflow_threshold :: real where
  "overflow_threshold = 2 ^ 1024"

text \<open>
  The float an exact result becomes; \<open>fl x = Some x\<close> says that \<open>x\<close> is a finite
  double.
\<close>

definition fl :: "real \<Rightarrow> pyfloat" where
  "fl x = (if \<bar>nearest_double x\<bar> < overflow_threshold then Some (nearest_double x) else None)"

text \<open>
  \<^verbatim>\<open>a + b\<close>, \<^verbatim>\<open>a - b\<close> and \<^verbatim>\<open>a * b\<close> on floats: with an infinity or a NaN among
  the operands the result is an infinity or a NaN again.
\<close>

definition float_add :: "pyfloat \<Rightarrow> pyfloat \<Rightarrow> pyfloat" where
  "float_add a b =
     (case a of None \<Rightarrow> None | Some x \<Rightarrow> (case b of None \<Rightarrow> None | Some y \<Rightarrow> fl (x + y)))"

definition float_sub :: "pyfloat \<Rightarrow> pyfloat \<Rightarrow> pyfloat" where
  "float_sub a b =
     (case a of None \<Rightarrow> None | Some x \<Rightarrow> (case b of None \<Rightarrow> None | Some y \<Rightarrow> fl (x - y)))"

definition float_mul :: "pyfloat \<Rightarrow> pyfloat \<Rightarrow> pyfloat" where
  "float_mul a b =
     (case a of None \<Rightarrow> None | Some x \<Rightarrow> (case b of None \<Rightarrow> None | Some y \<Rightarrow> fl (x * y)))"

subsection \<open>\<^verbatim>\<open>TwicketBot._get_random_sleep_time\<close>\<close>

text \<open>
  \<^verbatim>\<open>random.uniform(a, b)\<close> returns \<^verbatim>\<open>a + (b - a) * self.random()\<close>, computed in
  floats; \<open>r\<close> is the draw of \<^verbatim>\<open>random()\<close>, a float of \<open>[0, 1)\<close>.
\<close>

definition uniform :: "pyfloat \<Rightarrow> pyfloat \<Rightarrow> pyfloat \<Rightarrow> pyfloat" where
  "uniform a b r = float_add a (float_mul (float_sub b a) r)"

definition get_random_sleep_time :: "pyfloat \<Rightarrow> pyfloat \<Rightarrow> pyfloat" where
  "get_random_sleep_time base_time r = uniform base_time (float_mul base_time (Some 1.5)) r"

subsection \<open>The defaults of \<^verbatim>\<open>TwicketConfig\<close>\<close>

text \<open>
  The configuration with the default of every field that has one: a delay of two
  seconds, one to three seats (the maximum of four is exclusive), no price limit,
  meetups skipped.
\<close>

definition default_config :: "string \<Rightarrow> TwicketConfig" where
  "default_config eid =
     \<lparr>event_id = eid, time_delay = 2, min_seats = 1, max_seats = 4, max_price = None,
      skip_meetup_delivery = True\<rparr>"

subsection \<open>The acceptance filter as the specification words it\<close>

text \<open>
  The rejection reasons of the specification's acceptance filter, and its precedence
  list in its own words: seat count below the minimum; seat count at or above the
  maximum; price strictly above the maximum, if one is configured; availability false
  or no availability result; a meetup delivery method among the delivery options when
  meetups are skipped. The first that matches wins, and none means proceed.
\<close>

datatype reason = TooFewSeats | TooManySeats | PriceTooHigh | Unavailable | MeetupDelivery

definition spec_first_reason ::
  "TwicketConfig \<Rightarrow> int \<Rightarrow> real \<Rightarrow> TicketAvailability option \<Rightarrow> reason option" where
  "spec_first_reason config n p ta =
     (if n < min_seats config then Some TooFewSeats
      else if max_seats config \<le> n then Some TooManySeats
      else if (case max_price config of None \<Rightarrow> False | Some m \<Rightarrow> m < p) then Some PriceTooHigh
      else if (case ta of None \<Rightarrow> True | Some a \<Rightarrow> \<not> available a) then Some Unavailable
      else if skip_meetup_delivery config
              \<and> (case ta of
                    None \<Rightarrow> False
                  | Some a \<Rightarrow> \<exists>d \<in> set (delivery_plan a). equals_one (delivery_method d))
           then Some MeetupDelivery
      else None)"

text \<open>The status message, with its style, that the code reports each reason with.\<close>

fun reason_message :: "TicketListing \<Rightarrow> reason \<Rightarrow> message \<times> string" where
  "reason_message listing TooFewSeats = (SkippingTooFewSeats (seats listing), ''dim yellow'')"
| "reason_message listing TooManySeats = (SkippingTooManySeats (seats listing), ''dim yellow'')"
| "reason_message listing PriceTooHigh = (SkippingPriceTooHigh (price listing), ''dim yellow'')"
| "reason_message listing Unavailable = (TicketUnavailable, ''dim red'')"
| "reason_message listing MeetupDelivery = (SkippingMeetupDelivery, ''dim yellow'')"

subsection \<open>The identity of a listing and the invariant of the opened set\<close>

text \<open>The four values the key of \<^verbatim>\<open>found_tickets\<close> is built from.\<close>

definition identity :: "TicketListing \<Rightarrow> string \<times> string \<times> string \<times> string" where
  "identity listing = (section listing, row listing, seats listing, listing_id listing)"

text \<open>
  What the guard \<^verbatim>\<open>listing.id in self.opened_tickets\<close> maintains: no two opened pages
  share a listing id, every opened listing's id is in the set, and pages are opened
  only by a bot that has logged in.
\<close>

definition dedup_invariant :: "TwicketBot \<Rightarrow> bool" where
  "dedup_invariant s =
     (distinct (map (\<lambda>p. listing_id (fst p)) (opened_pages s))
      \<and> (\<lambda>p. listing_id (fst p)) ` set (opened_pages s) \<subseteq> opened_tickets s
      \<and> (opened_pages s = [] \<or> ready s))"

section \<open>Properties\<close>

subsection \<open>What each operation leaves unchanged\<close>

lemma status_messages_add:
  "status_messages (add_status_message m st s) =
     (if length (status_messages s) \<ge> 10 then tl (status_messages s @ [(m, st)])
      else status_messages s @ [(m, st)])"
  by (simp add: add_status_message_def Let_def)

lemma last_add_status_message [simp]:
  "last (status_messages (add_status_message m st s)) = (m, st)"
proof (cases "status_messages s")
  case Nil
  then show ?thesis by (simp add: add_status_message_def Let_def)
next
  case (Cons x xs)
  then show ?thesis by (simp add: add_status_message_def Let_def)
qed

lemma add_status_message_fields [simp]:
  "found_tickets (add_status_message m st s) = found_tickets s"
  "opened_tickets (add_status_message m st s) = opened_tickets s"
  "opened_pages (add_status_message m st s) = opened_pages s"
  "found_log (add_status_message m st s) = found_log s"
  "tickets_processed (add_status_message m st s) = tickets_processed s"
  "tickets_opened (add_status_message m st s) = tickets_opened s"
  "api_client (add_status_message m st s) = api_client s"
  "auth_token (add_status_message m st s) = auth_token s"
  by (simp_all add: add_status_message_def Let_def)

lemma set_status_fields [simp]:
  "status_messages (set_status k v s) = status_messages s"
  "opened_tickets (set_status k v s) = opened_tickets s"
  "opened_pages (set_status k v s) = opened_pages s"
  "found_log (set_status k v s) = found_log s"
  "tickets_processed (set_status k v s) = tickets_processed s"
  "tickets_opened (set_status k v s) = tickets_opened s"
  "api_client (set_status k v s) = api_client s"
  "auth_token (set_status k v s) = auth_token s"
  by (simp_all add: set_status_def split: option.splits)

lemma found_tickets_set_status:
  "found_tickets (set_status k v s) k' =
     (if k' = k then map_option (\<lambda>i. i\<lparr>status := v\<rparr>) (found_tickets s k) else found_tickets s k')"
  by (simp add: set_status_def split: option.splits)

lemma ready_add_status_message [simp]: "ready (add_status_message m st s) = ready s"
  by (simp add: ready_def)

lemma ready_set_status [simp]: "ready (set_status k v s) = ready s"
  by (simp add: ready_def)

lemma has_meetup_iff:
  "has_meetup ps = (\<exists>d \<in> set ps. equals_one (delivery_method d))"
  by (induction ps) auto

lemma ticket_unavailable_fields [simp]:
  "status_messages (ticket_unavailable listing s) =
     status_messages (add_status_message TicketUnavailable ''dim red'' s)"
  "opened_tickets (ticket_unavailable listing s) = opened_tickets s"
  "opened_pages (ticket_unavailable listing s) = opened_pages s"
  "found_log (ticket_unavailable listing s) = found_log s"
  "tickets_processed (ticket_unavailable listing s) = tickets_processed s"
  "tickets_opened (ticket_unavailable listing s) = tickets_opened s"
  "ready (ticket_unavailable listing s) = ready s"
  by (simp_all add: ticket_unavailable_def Let_def)

lemma found_tickets_ticket_unavailable:
  "found_tickets (ticket_unavailable listing s) k =
     (if k = section listing @ ''-'' @ row listing @ ''-'' @ seats listing
      then map_option (\<lambda>i. i\<lparr>status := ''No Longer Available''\<rparr>) (found_tickets s k)
      else found_tickets s k)"
  by (auto simp: ticket_unavailable_def Let_def found_tickets_set_status dom_def)

lemma should_skip_fields [simp]:
  "opened_tickets (snd (should_skip_listing config listing ta s)) = opened_tickets s"
  "opened_pages (snd (should_skip_listing config listing ta s)) = opened_pages s"
  "found_log (snd (should_skip_listing config listing ta s)) = found_log s"
  "tickets_processed (snd (should_skip_listing config listing ta s)) = tickets_processed s"
  "tickets_opened (snd (should_skip_listing config listing ta s)) = tickets_opened s"
  "ready (snd (should_skip_listing config listing ta s)) = ready s"
  by (simp_all add: should_skip_listing_def split: sum.splits option.splits)

lemma should_skip_found_tickets:
  "\<exists>f. found_tickets (snd (should_skip_listing config listing ta s)) k =
         map_option f (found_tickets s k)"
proof -
  have a: "\<exists>f. found_tickets s k = map_option f (found_tickets s k)"
    by (rule exI [of _ "\<lambda>i. i"]) (simp add: option.map_ident)
  have b: "\<exists>f. found_tickets (ticket_unavailable listing s) k = map_option f (found_tickets s k)"
    using a by (auto simp: found_tickets_ticket_unavailable)
  show ?thesis
    using a b by (simp add: should_skip_listing_def split: sum.splits option.splits)
qed

lemma should_skip_fst:
  "fst (should_skip_listing config listing ta s) = fst (should_skip_listing config listing ta s')"
  by (simp add: should_skip_listing_def split: sum.splits option.splits)

lemma record_observation_fields [simp]:
  "status_messages (record_observation l s) = status_messages s"
  "opened_tickets (record_observation l s) = opened_tickets s"
  "opened_pages (record_observation l s) = opened_pages s"
  "found_log (record_observation l s) = found_log s"
  "tickets_processed (record_observation l s) = tickets_processed s"
  "tickets_opened (record_observation l s) = tickets_opened s"
  "ready (record_observation l s) = ready s"
  by (simp_all add: record_observation_def ready_def split: option.splits)

lemma record_observation_entry:
  "\<exists>i. found_tickets (record_observation l s) (ticket_key l) = Some i \<and> status i = ''Checking...''"
  by (simp add: record_observation_def split: option.splits)

subsection \<open>Evaluation of the seat parser\<close>

lemma py_int_1: "py_int ''1'' = Inr 1"
  by (simp add: py_int_def strip_def is_space_def unsigned_def digit_val_def)

lemma py_int_2: "py_int ''2'' = Inr 2"
  by (simp add: py_int_def strip_def is_space_def unsigned_def digit_val_def)

lemma py_int_3: "py_int ''3'' = Inr 3"
  by (simp add: py_int_def strip_def is_space_def unsigned_def digit_val_def)

lemma py_int_4: "py_int ''4'' = Inr 4"
  by (simp add: py_int_def strip_def is_space_def unsigned_def digit_val_def)

text \<open>The equations that evaluate a run on concrete answers of the ports.\<close>

lemmas run_eval =
  run_monitoring_loop_def initialize_def monitoring_cycle_def process_listing_def
  ready_def record_observation_def ticket_key_def get_ticket_availability_def dict_get_def
  should_skip_listing_def ticket_unavailable_def set_status_def add_status_message_def
  open_ticket_def new_bot_def default_config_def Let_def make_plan_def
  py_int_1 py_int_2 py_int_3 py_int_4

subsection \<open>The availability request\<close>

text \<open>
  Claim C9. \<^verbatim>\<open>get_ticket_availability\<close> never returns an object with
  \<open>available = True\<close> and \<open>block = None\<close>. A response whose \<^verbatim>\<open>available\<close> value is
  true and that has no \<^verbatim>\<open>block\<close> key comes back as \<open>available = False\<close>,
  \<open>block = None\<close> and an empty delivery plan, which is also what the response
  \<^verbatim>\<open>{"available": false}\<close> of an unavailable ticket comes back as.
\<close>

theorem availability_never_true_without_block:
  "(\<forall>a. get_ticket_availability r = Inr (Some a) \<longrightarrow> \<not> (available a \<and> block a = None))
   \<and> (map_of kvs ''available'' = Some v \<and> truthy v \<and> map_of kvs ''block'' = None \<longrightarrow>
        get_ticket_availability (Inr (JObj kvs)) =
          Inr (Some \<lparr>available = False, block = None, delivery_plan = []\<rparr>)
        \<and> get_ticket_availability (Inr (JObj kvs)) =
            get_ticket_availability (Inr (JObj [(''available'', JBool False)])))"
proof (intro conjI allI impI)
  fix a
  assume "get_ticket_availability r = Inr (Some a)"
  then show "\<not> (available a \<and> block a = None)"
    by (auto simp: get_ticket_availability_def split: sum.splits if_splits)
next
  assume h: "map_of kvs ''available'' = Some v \<and> truthy v \<and> map_of kvs ''block'' = None"
  then have "kvs \<noteq> []" by auto
  with h show "get_ticket_availability (Inr (JObj kvs)) =
      Inr (Some \<lparr>available = False, block = None, delivery_plan = []\<rparr>)"
    by (simp add: get_ticket_availability_def dict_get_def)
  then show "get_ticket_availability (Inr (JObj kvs)) =
      get_ticket_availability (Inr (JObj [(''available'', JBool False)]))"
    by (simp add: get_ticket_availability_def dict_get_def)
qed

theorem availability_never_true_without_block_witness:
  "get_ticket_availability (Inr (JObj [(''available'', JBool True)])) =
     Inr (Some \<lparr>available = False, block = None, delivery_plan = []\<rparr>)
   \<and> get_ticket_availability
        (Inr (JObj [(''available'', JBool True), (''block'', JObj [(''blockId'', JStr ''b7'')])])) =
     Inr (Some \<lparr>available = True, block = Some \<lparr>block_id = JStr ''b7''\<rparr>, delivery_plan = []\<rparr>)"
  using availability_never_true_without_block
    [of "Inr (JObj [(''available'', JBool True), (''block'', JObj [(''blockId'', JStr ''b7'')])])"
        "[(''available'', JBool True)]" "JBool True"]
  by (simp add: get_ticket_availability_def dict_get_def)

subsection \<open>The sleep between two passes\<close>

lemma two_powr_int: "(2::real) powr real_of_int k = 2 powi k"
  by (rule powr_real_of_int') simp_all

lemma floor_log2_eq:
  assumes "0 < x" and "2 powi k \<le> x" and "x < 2 powi (k + 1)"
  shows "\<lfloor>log 2 x\<rfloor> = k"
proof -
  have a: "2 powr real_of_int k \<le> x"
    using assms(2) by (simp only: two_powr_int)
  have b: "x < 2 powr real_of_int (k + 1)"
    using assms(3) by (simp only: two_powr_int)
  have one: "(1::real) < 2" by simp
  have "\<lfloor>log 2 x\<rfloor> = k \<longleftrightarrow> 2 powr real_of_int k \<le> x \<and> x < 2 powr real_of_int (k + 1)"
    by (rule floor_log_eq_powr_iff [OF assms(1) one])
  with a b show ?thesis by blast
qed

lemma floor_log2_bounds:
  assumes "0 < x"
  shows "2 powi \<lfloor>log 2 x\<rfloor> \<le> x" "x < 2 powi (\<lfloor>log 2 x\<rfloor> + 1)"
proof -
  have one: "(1::real) < 2" by simp
  have "\<lfloor>log 2 x\<rfloor> = \<lfloor>log 2 x\<rfloor> \<longleftrightarrow>
      2 powr real_of_int \<lfloor>log 2 x\<rfloor> \<le> x \<and> x < 2 powr real_of_int (\<lfloor>log 2 x\<rfloor> + 1)"
    by (rule floor_log_eq_powr_iff [OF assms one])
  then have a: "2 powr real_of_int \<lfloor>log 2 x\<rfloor> \<le> x"
    and b: "x < 2 powr real_of_int (\<lfloor>log 2 x\<rfloor> + 1)"
    by blast+
  from a show "2 powi \<lfloor>log 2 x\<rfloor> \<le> x" by (simp only: two_powr_int)
  from b show "x < 2 powi (\<lfloor>log 2 x\<rfloor> + 1)" by (simp only: two_powr_int)
qed

lemma quantum_exp_eq:
  assumes "2 powi k \<le> \<bar>x\<bar>" and "\<bar>x\<bar> < 2 powi (k + 1)"
  shows "quantum_exp x = max (k - 52) (- 1074)"
proof -
  have "(0::real) < 2 powi k" by simp
  with assms(1) have pos: "0 < \<bar>x\<bar>" by linarith
  have "\<lfloor>log 2 \<bar>x\<bar>\<rfloor> = k"
    by (rule floor_log2_eq [OF pos assms])
  then show ?thesis by (simp only: quantum_exp_def)
qed

lemma nearest_double_eq:
  assumes "2 powi k \<le> \<bar>x\<bar>" and "\<bar>x\<bar> < 2 powi (k + 1)"
  shows "nearest_double x =
    of_int (round_half_even (x / 2 powi max (k - 52) (- 1074))) * 2 powi max (k - 52) (- 1074)"
proof -
  have "(0::real) < 2 powi k" by simp
  with assms(1) have "0 < \<bar>x\<bar>" by linarith
  then have "x \<noteq> 0" by simp
  then show ?thesis by (simp add: nearest_double_def quantum_exp_eq [OF assms])
qed


lemma pow_split:
  assumes "e \<le> j"
  shows "(2::real) powi j = 2 ^ nat (j - e) * 2 powi e"
proof -
  have "(2::real) powi j = 2 powi ((j - e) + e)" by simp
  also have "\<dots> = 2 powi (j - e) * 2 powi e"
    by (rule power_int_add) simp
  also have "(2::real) powi (j - e) = 2 ^ nat (j - e)"
    using assms by (simp add: power_int_def)
  finally show ?thesis .
qed

lemma round_half_even_bounds:
  "\<lfloor>m\<rfloor> \<le> round_half_even m" "round_half_even m \<le> \<lceil>m\<rceil>"
proof -
  show "\<lfloor>m\<rfloor> \<le> round_half_even m"
    by (simp add: round_half_even_def)
  have "\<lfloor>m\<rfloor> + 1 \<le> \<lceil>m\<rceil>" if "1 / 2 \<le> m - of_int \<lfloor>m\<rfloor>"
  proof -
    from that have "of_int \<lfloor>m\<rfloor> < m" by linarith
    then have "\<lfloor>m\<rfloor> < \<lceil>m\<rceil>" by (simp add: less_ceiling_iff)
    then show ?thesis by linarith
  qed
  moreover have "\<lfloor>m\<rfloor> \<le> \<lceil>m\<rceil>" by (rule floor_le_ceiling)
  ultimately show "round_half_even m \<le> \<lceil>m\<rceil>"
    by (auto simp: round_half_even_def)
qed

lemma round_half_even_ge: "of_int a \<le> m \<Longrightarrow> a \<le> round_half_even m"
  using round_half_even_bounds(1) [of m] by (meson le_floor_iff order_trans)

lemma round_half_even_le: "m \<le> of_int c \<Longrightarrow> round_half_even m \<le> c"
  using round_half_even_bounds(2) [of m] by (meson ceiling_le_iff order_trans)

text \<open>The scaled value of a positive number.\<close>

lemma scaled_bounds:
  assumes "0 < x"
  shows "- 1074 \<le> quantum_exp x"
    "0 < x / 2 powi quantum_exp x"
    "x / 2 powi quantum_exp x < 2 ^ 53"
    "- 1074 < quantum_exp x \<Longrightarrow> 2 ^ 52 \<le> x / 2 powi quantum_exp x"
proof -
  let ?E = "\<lfloor>log 2 x\<rfloor>"
  have ax: "\<bar>x\<bar> = x" using assms by simp
  have lo: "2 powi ?E \<le> x" and hi: "x < 2 powi (?E + 1)"
    using floor_log2_bounds [OF assms] by simp_all
  have qe: "quantum_exp x = max (?E - 52) (- 1074)"
    by (simp add: quantum_exp_def ax)
  show "- 1074 \<le> quantum_exp x" by (simp add: qe)
  show "0 < x / 2 powi quantum_exp x" using assms by simp
  have div: "x / 2 powi e = x * 2 powi (- e)" for e :: int
    by (simp add: power_int_minus field_simps)
  show "x / 2 powi quantum_exp x < 2 ^ 53"
  proof (cases "- 1074 \<le> ?E - 52")
    case True
    then have e: "quantum_exp x = ?E - 52" by (simp add: qe)
    have "x * 2 powi (- (?E - 52)) < 2 powi (?E + 1) * 2 powi (- (?E - 52))"
      using hi by simp
    also have "\<dots> = 2 powi ((?E + 1) + (- (?E - 52)))"
      by (rule power_int_add [symmetric]) simp
    also have "\<dots> = 2 ^ 53" by simp
    finally show ?thesis by (simp only: e div)
  next
    case False
    then have e: "quantum_exp x = - 1074" by (simp add: qe)
    from False have "?E + 1 \<le> - 1022" by simp
    then have "(2::real) powi (?E + 1) \<le> 2 powi (- 1022)"
      by (intro power_int_increasing) simp_all
    with hi have "x < 2 powi (- 1022)" by linarith
    then have "x * 2 powi (- (- 1074)) < 2 powi (- 1022) * 2 powi (- (- 1074))"
      by simp
    also have "\<dots> = 2 powi ((- 1022) + (- (- 1074)))"
      by (rule power_int_add [symmetric]) simp
    also have "\<dots> = 2 ^ 52" by simp
    also have "\<dots> < (2::real) ^ 53" by simp
    finally show ?thesis by (simp only: e div)
  qed
  show "2 ^ 52 \<le> x / 2 powi quantum_exp x" if "- 1074 < quantum_exp x"
  proof -
    from that have e: "quantum_exp x = ?E - 52" by (simp add: qe max_def split: if_splits)
    have "(2::real) ^ 52 = 2 powi (?E + (- (?E - 52)))" by simp
    also have "\<dots> = 2 powi ?E * 2 powi (- (?E - 52))"
      by (rule power_int_add) simp
    also have "\<dots> \<le> x * 2 powi (- (?E - 52))"
      using lo by simp
    finally show ?thesis by (simp only: e div)
  qed
qed

lemma nearest_double_pos:
  assumes "0 < x"
  shows "nearest_double x =
    of_int (round_half_even (x / 2 powi quantum_exp x)) * 2 powi quantum_exp x"
  using assms by (simp add: nearest_double_def)

text \<open>A double below a number stays below its rounding, one above stays above.\<close>

lemma dyadic53_small:
  assumes "\<bar>k\<bar> \<le> 2 ^ 53" and "j < e"
  shows "of_int k * 2 powi j \<le> 2 ^ 52 * (2::real) powi e"
proof -
  have "k \<le> 2 ^ 53" using assms(1) by linarith
  then have "real_of_int k \<le> 2 ^ 53" by (metis of_int_le_iff of_int_numeral of_int_power)
  then have "of_int k * 2 powi j \<le> 2 ^ 53 * (2::real) powi j"
    by (intro mult_right_mono) simp_all
  also have "(2::real) powi j \<le> 2 powi (e - 1)"
    using assms(2) by (intro power_int_increasing) simp_all
  also have "(2::real) powi (e - 1) = 2 powi e * 2 powi (- 1)"
    using power_int_add [of "2::real" e "- 1"] by simp
  finally show ?thesis by (simp add: power_int_minus)
qed

lemma nearest_double_ge:
  assumes "dyadic53 f" and "0 \<le> f" and "f \<le> x"
  shows "f \<le> nearest_double x"
proof (cases "x = 0")
  case True
  with assms show ?thesis by (simp add: nearest_double_def)
next
  case False
  with assms have pos: "0 < x" by linarith
  define e where "e = quantum_exp x"
  define m where "m = x / 2 powi e"
  have q: "(0::real) < 2 powi e" by simp
  have x: "x = m * 2 powi e" by (simp add: m_def)
  have nd: "nearest_double x = of_int (round_half_even m) * 2 powi e"
    using nearest_double_pos [OF pos] by (simp only: e_def m_def)
  from assms(1) obtain k j where k: "\<bar>k\<bar> \<le> 2 ^ 53" and j: "- 1074 \<le> j"
    and f: "f = of_int k * 2 powi j"
    unfolding dyadic53_def by (elim exE conjE)
  have "\<exists>a. f \<le> of_int a * 2 powi e \<and> of_int a \<le> m"
  proof (cases "e \<le> j")
    case True
    let ?a = "k * 2 ^ nat (j - e)"
    have fa: "f = of_int ?a * 2 powi e"
      by (simp add: f pow_split [OF True])
    with assms(3) x have "of_int ?a * 2 powi e \<le> m * 2 powi e" by (simp only:)
    with q have "of_int ?a \<le> m" by (simp only: mult_le_cancel_right_pos)
    with fa show ?thesis by (intro exI [of _ ?a]) simp
  next
    case False
    then have lt: "j < e" by simp
    with j have "- 1074 < quantum_exp x" by (simp add: e_def)
    from scaled_bounds(4) [OF pos this] have "2 ^ 52 \<le> m" by (simp only: m_def e_def)
    moreover have "f \<le> 2 ^ 52 * 2 powi e"
      unfolding f by (rule dyadic53_small [OF k lt])
    ultimately show ?thesis by (intro exI [of _ "2 ^ 52"]) simp
  qed
  then obtain a where a1: "f \<le> of_int a * 2 powi e" and a2: "of_int a \<le> m"
    by (elim exE conjE)
  from round_half_even_ge [OF a2]
  have "real_of_int a \<le> of_int (round_half_even m)" by (simp only: of_int_le_iff)
  then have "of_int a * (2::real) powi e \<le> of_int (round_half_even m) * 2 powi e"
    by (intro mult_right_mono) simp_all
  with a1 show ?thesis by (simp only: nd)
qed

lemma nearest_double_le:
  assumes "dyadic53 f" and "0 \<le> x" and "x \<le> f"
  shows "nearest_double x \<le> f"
proof (cases "x = 0")
  case True
  with assms show ?thesis by (simp add: nearest_double_def)
next
  case False
  with assms have pos: "0 < x" by linarith
  define e where "e = quantum_exp x"
  define m where "m = x / 2 powi e"
  have q: "(0::real) < 2 powi e" by simp
  have x: "x = m * 2 powi e" by (simp add: m_def)
  have nd: "nearest_double x = of_int (round_half_even m) * 2 powi e"
    using nearest_double_pos [OF pos] by (simp only: e_def m_def)
  from assms(1) obtain k j where k: "\<bar>k\<bar> \<le> 2 ^ 53" and j: "- 1074 \<le> j"
    and f: "f = of_int k * 2 powi j"
    unfolding dyadic53_def by (elim exE conjE)
  have "\<exists>c. of_int c * 2 powi e \<le> f \<and> m \<le> of_int c"
  proof (cases "e \<le> j")
    case True
    let ?c = "k * 2 ^ nat (j - e)"
    have fc: "f = of_int ?c * 2 powi e"
      by (simp add: f pow_split [OF True])
    with assms(3) x have "m * 2 powi e \<le> of_int ?c * 2 powi e" by (simp only:)
    with q have "m \<le> of_int ?c" by (simp only: mult_le_cancel_right_pos)
    with fc show ?thesis by (intro exI [of _ ?c]) simp
  next
    case False
    then have lt: "j < e" by simp
    with j have "- 1074 < quantum_exp x" by (simp add: e_def)
    from scaled_bounds(4) [OF pos this] have lo: "2 ^ 52 \<le> m" by (simp only: m_def e_def)
    have small: "f \<le> 2 ^ 52 * 2 powi e"
      unfolding f by (rule dyadic53_small [OF k lt])
    from lo q have "2 ^ 52 * 2 powi e \<le> m * 2 powi e"
      by (simp only: mult_le_cancel_right_pos)
    with x assms(3) small have eq: "m * 2 powi e = 2 ^ 52 * 2 powi e" "f = 2 ^ 52 * 2 powi e"
      by linarith+
    from eq(1) q have "m = 2 ^ 52" by simp
    with eq(2) show ?thesis by (intro exI [of _ "2 ^ 52"]) simp
  qed
  then obtain c where c1: "of_int c * 2 powi e \<le> f" and c2: "m \<le> of_int c"
    by (elim exE conjE)
  from round_half_even_le [OF c2]
  have "real_of_int (round_half_even m) \<le> of_int c" by (simp only: of_int_le_iff)
  then have "of_int (round_half_even m) * (2::real) powi e \<le> of_int c * 2 powi e"
    by (intro mult_right_mono) simp_all
  with c1 show ?thesis by (simp only: nd)
qed

lemma dyadic53_0: "dyadic53 0"
  unfolding dyadic53_def by (intro exI [of _ 0] conjI) simp_all

lemma dyadic53_double:
  assumes "dyadic53 b"
  shows "dyadic53 (2 * b)"
proof -
  from assms obtain k j where k: "\<bar>k\<bar> \<le> 2 ^ 53" and j: "- 1074 \<le> j"
    and b: "b = of_int k * 2 powi j"
    unfolding dyadic53_def by (elim exE conjE)
  have "(2::real) powi (j + 1) = 2 powi j * 2"
    using power_int_add [of "2::real" j 1] by simp
  then have "2 * b = of_int k * 2 powi (j + 1)" by (simp add: b)
  moreover from j have "- 1074 \<le> j + 1" by simp
  ultimately show ?thesis
    unfolding dyadic53_def using k by (intro exI [of _ k] exI [of _ "j + 1"] conjI)
qed

lemma nearest_double_dyadic53:
  assumes "0 \<le> x"
  shows "dyadic53 (nearest_double x)"
proof (cases "x = 0")
  case True
  then show ?thesis by (simp add: nearest_double_def dyadic53_0)
next
  case False
  with assms have pos: "0 < x" by linarith
  let ?m = "x / 2 powi quantum_exp x"
  have "of_int 0 \<le> ?m" using scaled_bounds(2) [OF pos] by simp
  from round_half_even_ge [OF this] have lo: "0 \<le> round_half_even ?m" .
  have "?m \<le> of_int (2 ^ 53)" using scaled_bounds(3) [OF pos] by simp
  from round_half_even_le [OF this] have hi: "round_half_even ?m \<le> 2 ^ 53" .
  from lo hi have "\<bar>round_half_even ?m\<bar> \<le> 2 ^ 53" by linarith
  then show ?thesis
    unfolding dyadic53_def nearest_double_pos [OF pos]
    using scaled_bounds(1) [OF pos]
    by (intro exI [of _ "round_half_even ?m"] exI [of _ "quantum_exp x"] conjI refl)
qed

lemma nearest_double_fix:
  assumes "dyadic53 f" and "0 \<le> f"
  shows "nearest_double f = f"
  using nearest_double_ge [OF assms order_refl] nearest_double_le [OF assms order_refl]
  by linarith

text \<open>The difference of two doubles that lie within a factor of two is a double.\<close>

lemma dyadic53_diff:
  assumes "dyadic53 x" and "dyadic53 y" and "0 \<le> y" and "y \<le> x" and "x \<le> 2 * y"
  shows "dyadic53 (x - y)"
proof -
  from assms(1) obtain k' j' where k': "\<bar>k'\<bar> \<le> 2 ^ 53" and j': "- 1074 \<le> j'"
    and x: "x = of_int k' * 2 powi j'"
    unfolding dyadic53_def by (elim exE conjE)
  from assms(2) obtain k j where k: "\<bar>k\<bar> \<le> 2 ^ 53" and j: "- 1074 \<le> j"
    and y: "y = of_int k * 2 powi j"
    unfolding dyadic53_def by (elim exE conjE)
  show ?thesis
  proof (cases "j \<le> j'")
    case True
    let ?K = "k' * 2 ^ nat (j' - j) - k"
    have q: "(0::real) < 2 powi j" by simp
    have d: "x - y = of_int ?K * 2 powi j"
      by (simp add: x y pow_split [OF True] algebra_simps)
    from assms(4) have "0 \<le> x - y" by simp
    then have "0 * 2 powi j \<le> real_of_int ?K * 2 powi j" by (simp only: d mult_zero_left)
    with q have "(0::real) \<le> of_int ?K" by (simp only: mult_le_cancel_right_pos)
    then have lo: "0 \<le> ?K" by (simp only: of_int_0_le_iff)
    have "real_of_int ?K * 2 powi j = x - y" by (rule d [symmetric])
    also from assms(5) have "x - y \<le> y" by linarith
    also have "y = real_of_int k * 2 powi j" by (rule y)
    finally have "real_of_int ?K * 2 powi j \<le> real_of_int k * 2 powi j" .
    with q have "real_of_int ?K \<le> of_int k" by (simp only: mult_le_cancel_right_pos)
    then have "?K \<le> k" by (simp only: of_int_le_iff)
    with k lo have "\<bar>?K\<bar> \<le> 2 ^ 53" by linarith
    then show ?thesis
      unfolding dyadic53_def using j d by (intro exI [of _ ?K] exI [of _ j] conjI)
  next
    case False
    then have le: "j' \<le> j" by simp
    let ?K = "k' - k * 2 ^ nat (j - j')"
    have q: "(0::real) < 2 powi j'" by simp
    have d: "x - y = of_int ?K * 2 powi j'"
      by (simp add: x y pow_split [OF le] algebra_simps)
    from assms(4) have "0 \<le> x - y" by simp
    then have "0 * 2 powi j' \<le> real_of_int ?K * 2 powi j'" by (simp only: d mult_zero_left)
    with q have "(0::real) \<le> of_int ?K" by (simp only: mult_le_cancel_right_pos)
    then have lo: "0 \<le> ?K" by (simp only: of_int_0_le_iff)
    have "real_of_int ?K * 2 powi j' = x - y" by (rule d [symmetric])
    also from assms(3) have "x - y \<le> x" by linarith
    also have "x = real_of_int k' * 2 powi j'" by (rule x)
    finally have "real_of_int ?K * 2 powi j' \<le> real_of_int k' * 2 powi j'" .
    with q have "real_of_int ?K \<le> of_int k'" by (simp only: mult_le_cancel_right_pos)
    then have "?K \<le> k'" by (simp only: of_int_le_iff)
    with k' lo have "\<bar>?K\<bar> \<le> 2 ^ 53" by linarith
    then show ?thesis
      unfolding dyadic53_def using j' d by (intro exI [of _ ?K] exI [of _ j'] conjI)
  qed
qed

lemma fl_Some: "fl x = Some y \<Longrightarrow> y = nearest_double x \<and> \<bar>y\<bar> < overflow_threshold"
  by (auto simp: fl_def split: if_splits)

lemma fl_finite: "\<bar>nearest_double x\<bar> < overflow_threshold \<Longrightarrow> fl x = Some (nearest_double x)"
  by (simp add: fl_def)

text \<open>
  Claim C8, as amended. Let the base delay \<open>b\<close> be a finite float that is not
  negative, let the float product \<^verbatim>\<open>base_time * 1.5\<close> be finite, \<open>hi\<close>, and let the
  draw \<open>r\<close> be in \<open>[0, 1)\<close>. Then the sleep time is a finite float \<open>t\<close> of the closed
  interval from \<open>b\<close> to \<open>hi\<close>, and \<open>hi\<close> is at most twice \<open>b\<close>; for \<open>b = 0\<close> the sleep
  time is \<open>0\<close>.
\<close>

theorem sleep_time_bounds:
  assumes "fl b = Some b" and "0 \<le> b" and "0 \<le> r" and "r < 1"
    and "float_mul (Some b) (Some 1.5) = Some hi"
  shows "\<exists>t. get_random_sleep_time (Some b) (Some r) = Some t \<and> b \<le> t \<and> t \<le> hi
           \<and> hi \<le> 2 * b"
proof -
  from fl_Some [OF assms(1)] have "b = nearest_double b" by (rule conjunct1)
  with nearest_double_dyadic53 [OF assms(2)] have B: "dyadic53 b" by simp
  from assms(5) have "fl (b * 1.5) = Some hi"
    by (simp only: float_mul_def option.case)
  from fl_Some [OF this] have hi: "hi = nearest_double (b * 1.5)"
    and fin: "\<bar>hi\<bar> < overflow_threshold"
    by (rule conjunct1, rule conjunct2)
  have b15: "0 \<le> b * 1.5" "b \<le> b * 1.5" "b * 1.5 \<le> 2 * b" using assms(2) by simp_all
  have H: "dyadic53 hi" unfolding hi by (rule nearest_double_dyadic53 [OF b15(1)])
  have lo: "b \<le> hi" unfolding hi by (rule nearest_double_ge [OF B assms(2) b15(2)])
  have up: "hi \<le> 2 * b" unfolding hi
    by (rule nearest_double_le [OF dyadic53_double [OF B] b15(1) b15(3)])
  define d where "d = hi - b"
  have D: "dyadic53 d" unfolding d_def by (rule dyadic53_diff [OF H B assms(2) lo up])
  have d0: "0 \<le> d" using lo by (simp add: d_def)
  have dfix: "nearest_double d = d" by (rule nearest_double_fix [OF D d0])
  have dfin: "\<bar>d\<bar> < overflow_threshold" using d0 fin assms(2) lo unfolding d_def by linarith
  have "fl d = Some d" using fl_finite [of d] dfin by (simp only: dfix)
  then have sub: "float_sub (Some hi) (Some b) = Some d"
    by (simp only: float_sub_def option.case d_def)
  define p where "p = nearest_double (d * r)"
  have dr: "0 \<le> d * r" "d * r \<le> d"
    using d0 assms(3,4) by (simp_all add: mult_left_le)
  have p0: "0 \<le> p" unfolding p_def by (rule nearest_double_ge [OF dyadic53_0 order_refl dr(1)])
  have pd: "p \<le> d" unfolding p_def by (rule nearest_double_le [OF D dr(1) dr(2)])
  have pfin: "\<bar>p\<bar> < overflow_threshold" using p0 pd d0 dfin by linarith
  have "fl (d * r) = Some p" using fl_finite [of "d * r"] pfin by (simp only: p_def)
  then have mul: "float_mul (Some d) (Some r) = Some p"
    by (simp only: float_mul_def option.case)
  define t where "t = nearest_double (b + p)"
  have bp: "0 \<le> b + p" "b \<le> b + p" "b + p \<le> hi"
    using assms(2) p0 pd by (simp_all add: d_def)
  have tb: "b \<le> t" unfolding t_def by (rule nearest_double_ge [OF B assms(2) bp(2)])
  have th: "t \<le> hi" unfolding t_def by (rule nearest_double_le [OF H bp(1) bp(3)])
  have tfin: "\<bar>t\<bar> < overflow_threshold" using tb th assms(2) fin by linarith
  have "fl (b + p) = Some t" using fl_finite [of "b + p"] tfin by (simp only: t_def)
  then have add: "float_add (Some b) (Some p) = Some t"
    by (simp only: float_add_def option.case)
  have "get_random_sleep_time (Some b) (Some r) = Some t"
    by (simp only: get_random_sleep_time_def uniform_def assms(5) sub mul add)
  with tb th up show ?thesis by (intro exI [of _ t] conjI)
qed

lemma small_finite: "\<bar>x\<bar> \<le> 4 \<Longrightarrow> \<bar>x\<bar> < overflow_threshold"
proof -
  have "(4::real) < overflow_threshold" by (simp add: overflow_threshold_def)
  then show "\<bar>x\<bar> \<le> 4 \<Longrightarrow> \<bar>x\<bar> < overflow_threshold" by linarith
qed

lemma nd_3: "nearest_double 3 = 3"
  by (simp add: nearest_double_eq [of 1] round_half_even_def)

lemma nd_3m: "nearest_double (3 - 1 / 2 ^ 53) = 3"
  by (simp add: nearest_double_eq [of 1] round_half_even_def)

lemma nd_r: "nearest_double (1 - 1 / 2 ^ 53) = 1 - 1 / 2 ^ 53"
  by (simp add: nearest_double_eq [of "-1"] round_half_even_def)

lemma nd_1: "nearest_double 1 = 1"
  by (simp add: nearest_double_eq [of 0] round_half_even_def)

lemma nd_2: "nearest_double 2 = 2"
  by (simp add: nearest_double_eq [of 1] round_half_even_def)

lemma fl_3: "fl 3 = Some 3"
  using fl_finite [of 3] small_finite [of 3] by (simp add: nd_3)

lemma fl_3m: "fl (3 - 1 / 2 ^ 53) = Some 3"
  using fl_finite [of "3 - 1 / 2 ^ 53"] small_finite [of 3] by (simp only: nd_3m)

lemma fl_r: "fl (1 - 1 / 2 ^ 53) = Some (1 - 1 / 2 ^ 53)"
proof -
  have "\<bar>1 - 1 / 2 ^ 53 :: real\<bar> \<le> 4" by simp
  from small_finite [OF this] fl_finite [of "1 - 1 / 2 ^ 53"] show ?thesis
    by (simp only: nd_r)
qed

lemma fl_1: "fl 1 = Some 1"
  using fl_finite [of 1] small_finite [of 1] by (simp add: nd_1)

lemma fl_2: "fl 2 = Some 2"
  using fl_finite [of 2] small_finite [of 2] by (simp add: nd_2)

lemma nd_0: "nearest_double 0 = 0"
  by (simp add: nearest_double_def)

lemma fl_0: "fl 0 = Some 0"
  using fl_finite [of 0] small_finite [of 0] by (simp add: nd_0)

theorem sleep_time_bounds_witness:
  "fl 2 = Some 2 \<and> float_mul (Some 2) (Some 1.5) = Some 3
   \<and> get_random_sleep_time (Some 2) (Some (1 / 2)) = Some (5 / 2)
   \<and> (2::real) \<le> 5 / 2 \<and> (5 / 2 :: real) \<le> 3"
proof -
  have h1: "fl 2 = Some 2" by (rule fl_2)
  have "(2::real) * 1.5 = 3" by simp
  then have h5: "float_mul (Some 2) (Some 1.5) = Some 3"
    by (simp only: float_mul_def option.case fl_3)
  have nd: "nearest_double (5 / 2) = 5 / 2"
    by (simp add: nearest_double_eq [of 1] round_half_even_def)
  have nh: "nearest_double (1 / 2) = 1 / 2"
    by (simp add: nearest_double_eq [of "-1"] round_half_even_def)
  have f52: "fl (5 / 2) = Some (5 / 2)"
    using fl_finite [of "5 / 2"] small_finite [of "5 / 2"] by (simp add: nd)
  have fh: "fl (1 / 2) = Some (1 / 2)"
    using fl_finite [of "1 / 2"] small_finite [of "1 / 2"] by (simp add: nh)
  have "(3::real) - 2 = 1" by simp
  then have s: "float_sub (Some 3) (Some 2) = Some 1"
    by (simp only: float_sub_def option.case fl_1)
  have "(1::real) * (1 / 2) = 1 / 2" by simp
  then have p: "float_mul (Some 1) (Some (1 / 2)) = Some (1 / 2)"
    by (simp only: float_mul_def option.case fh)
  have "(2::real) + 1 / 2 = 5 / 2" by simp
  then have a: "float_add (Some 2) (Some (1 / 2)) = Some (5 / 2)"
    by (simp only: float_add_def option.case f52)
  have g: "get_random_sleep_time (Some 2) (Some (1 / 2)) = Some (5 / 2)"
    by (simp only: get_random_sleep_time_def uniform_def h5 s p a)
  have r: "(0::real) \<le> 1 / 2" "(1 / 2 :: real) < 1" "(0::real) \<le> 2" by simp_all
  from sleep_time_bounds [OF h1 r(3) r(1) r(2) h5]
  obtain t where t: "get_random_sleep_time (Some 2) (Some (1 / 2)) = Some t"
    and lo: "2 \<le> t" and hi: "t \<le> 3"
    by (elim exE conjE)
  from t g have "t = 5 / 2" by simp
  with lo hi have "(2::real) \<le> 5 / 2" "(5 / 2 :: real) \<le> 3" by simp_all
  with h1 h5 g show ?thesis by (intro conjI)
qed

text \<open>
  Claim C8 as stated fails: the upper end of the interval is reached. For the base
  delay \<open>2.0\<close> and the draw \<open>1 - 1 / 2 ^ 53\<close>, the largest float below one, the sum
  \<open>2 + (1 - 1 / 2 ^ 53)\<close> rounds to \<open>3.0\<close>, which is the product \<open>2.0 * 1.5\<close> and not
  below it; and for the base delay \<open>0\<close> the sleep time is \<open>0\<close>, which is not below
  \<open>0 * 1.5\<close>.
\<close>

theorem sleep_time_reaches_upper_end_counterexample:
  "get_random_sleep_time (Some 2) (Some (1 - 1 / 2 ^ 53)) = Some 3
   \<and> float_mul (Some 2) (Some 1.5) = Some 3
   \<and> \<not> ((3::real) < 3)
   \<and> get_random_sleep_time (Some 0) (Some (1 / 2)) = Some 0
   \<and> float_mul (Some 0) (Some 1.5) = Some 0
   \<and> \<not> ((0::real) < 0)"
proof -
  have "(2::real) * 1.5 = 3" by simp
  then have m: "float_mul (Some 2) (Some 1.5) = Some 3"
    by (simp only: float_mul_def option.case fl_3)
  have "(3::real) - 2 = 1" by simp
  then have s: "float_sub (Some 3) (Some 2) = Some 1"
    by (simp only: float_sub_def option.case fl_1)
  have "(1::real) * (1 - 1 / 2 ^ 53) = 1 - 1 / 2 ^ 53" by (rule mult_1)
  then have p: "float_mul (Some 1) (Some (1 - 1 / 2 ^ 53)) = Some (1 - 1 / 2 ^ 53)"
    by (simp only: float_mul_def option.case fl_r)
  have "(2::real) + (1 - 1 / 2 ^ 53) = 3 - 1 / 2 ^ 53" by simp
  then have a: "float_add (Some 2) (Some (1 - 1 / 2 ^ 53)) = Some 3"
    by (simp only: float_add_def option.case fl_3m)
  have g: "get_random_sleep_time (Some 2) (Some (1 - 1 / 2 ^ 53)) = Some 3"
    by (simp only: get_random_sleep_time_def uniform_def m s p a)
  have "(0::real) * 1.5 = 0" by simp
  then have m0: "float_mul (Some 0) (Some 1.5) = Some 0"
    by (simp only: float_mul_def option.case fl_0)
  have "(0::real) - 0 = 0" by simp
  then have s0: "float_sub (Some 0) (Some 0) = Some 0"
    by (simp only: float_sub_def option.case fl_0)
  have "(0::real) * (1 / 2) = 0" by simp
  then have p0: "float_mul (Some 0) (Some (1 / 2)) = Some 0"
    by (simp only: float_mul_def option.case fl_0)
  have "(0::real) + 0 = 0" by simp
  then have a0: "float_add (Some 0) (Some 0) = Some 0"
    by (simp only: float_add_def option.case fl_0)
  have g0: "get_random_sleep_time (Some 0) (Some (1 / 2)) = Some 0"
    by (simp only: get_random_sleep_time_def uniform_def m0 s0 p0 a0)
  have n: "\<not> ((3::real) < 3)" "\<not> ((0::real) < 0)" by simp_all
  from g m n(1) g0 m0 n(2) show ?thesis by (intro conjI)
qed

subsection \<open>The acceptance filter\<close>

text \<open>
  Claim C5. For a listing whose seat string parses, \<^verbatim>\<open>_should_skip_listing\<close> rejects
  exactly when the precedence list of the specification names a reason, and then it
  reports that first reason and nothing else: one status message is added, the one of
  the first matching reason in the order too few seats, too many seats, price too
  high, unavailable, meetup delivery. When no reason matches, the state is unchanged.
  In particular a listing with too few seats and a price above the configured maximum
  is reported with the seat message.
\<close>

theorem filter_precedence:
  assumes "py_int (seats listing) = Inr n"
  shows "fst (should_skip_listing config listing ta s) =
           Inr (spec_first_reason config n (price listing) ta \<noteq> None)
    \<and> (\<forall>r. spec_first_reason config n (price listing) ta = Some r \<longrightarrow>
          status_messages (snd (should_skip_listing config listing ta s)) =
            status_messages (add_status_message (fst (reason_message listing r))
                               (snd (reason_message listing r)) s)
          \<and> last (status_messages (snd (should_skip_listing config listing ta s))) =
              reason_message listing r)
    \<and> (spec_first_reason config n (price listing) ta = None \<longrightarrow>
          snd (should_skip_listing config listing ta s) = s)
    \<and> (n < min_seats config \<and> max_price config = Some m \<and> m < price listing \<longrightarrow>
          last (status_messages (snd (should_skip_listing config listing ta s))) =
            (SkippingTooFewSeats (seats listing), ''dim yellow''))"
  using assms
  by (auto simp: should_skip_listing_def spec_first_reason_def has_meetup_iff
           split: option.splits)

theorem filter_precedence_witness:
  "fst (should_skip_listing
          \<lparr>event_id = ''e'', time_delay = 2, min_seats = 2, max_seats = 4,
           max_price = Some 50, skip_meetup_delivery = True\<rparr>
          \<lparr>listing_id = ''77'', seats = ''1'', listing_type = ''T'', area = ''N'',
           section = ''A'', row = ''5'', price = 80\<rparr>
          None new_bot) = Inr True
   \<and> status_messages (snd (should_skip_listing
          \<lparr>event_id = ''e'', time_delay = 2, min_seats = 2, max_seats = 4,
           max_price = Some 50, skip_meetup_delivery = True\<rparr>
          \<lparr>listing_id = ''77'', seats = ''1'', listing_type = ''T'', area = ''N'',
           section = ''A'', row = ''5'', price = 80\<rparr>
          None new_bot)) = [(SkippingTooFewSeats ''1'', ''dim yellow'')]"
proof -
  have h: "py_int (seats \<lparr>listing_id = ''77'', seats = ''1'', listing_type = ''T'', area = ''N'',
           section = ''A'', row = ''5'', price = 80\<rparr>) = Inr 1"
    by (simp add: py_int_1)
  show ?thesis
    using filter_precedence [OF h, of
          "\<lparr>event_id = ''e'', time_delay = 2, min_seats = 2, max_seats = 4,
           max_price = Some 50, skip_meetup_delivery = True\<rparr>" None new_bot 50]
    by (simp add: spec_first_reason_def new_bot_def add_status_message_def)
qed

text \<open>
  Claim C6. The seat maximum is exclusive. A listing with exactly \<open>max_seats\<close> seats
  is rejected. A listing with \<open>max_seats - 1\<close> seats that meets the minimum is
  accepted when the price, the availability and the delivery plans allow it, and
  when it is rejected the reported reason is never one of the two seat reasons.
\<close>

theorem max_seats_exclusive:
  assumes "py_int (seats listing) = Inr n"
  shows "(n = max_seats config \<longrightarrow> fst (should_skip_listing config listing ta s) = Inr True)
    \<and> (n = max_seats config - 1 \<and> min_seats config \<le> n
         \<and> (case max_price config of None \<Rightarrow> True | Some m \<Rightarrow> price listing \<le> m)
         \<and> ta = Some a \<and> available a
         \<and> \<not> (skip_meetup_delivery config \<and> has_meetup (delivery_plan a)) \<longrightarrow>
        should_skip_listing config listing ta s = (Inr False, s))
    \<and> (n = max_seats config - 1 \<and> min_seats config \<le> n
         \<and> fst (should_skip_listing config listing ta s) = Inr True \<longrightarrow>
        fst (last (status_messages (snd (should_skip_listing config listing ta s))))
          \<in> {SkippingPriceTooHigh (price listing), TicketUnavailable, SkippingMeetupDelivery})"
  using assms
  by (auto simp: should_skip_listing_def split: option.splits)

theorem max_seats_exclusive_witness:
  "fst (should_skip_listing
          \<lparr>event_id = ''e'', time_delay = 2, min_seats = 1, max_seats = 4,
           max_price = None, skip_meetup_delivery = True\<rparr>
          \<lparr>listing_id = ''77'', seats = ''4'', listing_type = ''T'', area = ''N'',
           section = ''A'', row = ''5'', price = 80\<rparr>
          (Some \<lparr>available = True, block = Some \<lparr>block_id = JStr ''b''\<rparr>, delivery_plan = []\<rparr>)
          new_bot) = Inr True
   \<and> should_skip_listing
          \<lparr>event_id = ''e'', time_delay = 2, min_seats = 1, max_seats = 4,
           max_price = None, skip_meetup_delivery = True\<rparr>
          \<lparr>listing_id = ''77'', seats = ''3'', listing_type = ''T'', area = ''N'',
           section = ''A'', row = ''5'', price = 80\<rparr>
          (Some \<lparr>available = True, block = Some \<lparr>block_id = JStr ''b''\<rparr>, delivery_plan = []\<rparr>)
          new_bot = (Inr False, new_bot)"
proof -
  have h4: "py_int (seats \<lparr>listing_id = ''77'', seats = ''4'', listing_type = ''T'', area = ''N'',
           section = ''A'', row = ''5'', price = 80\<rparr>) = Inr 4"
    by (simp add: py_int_4)
  have h3: "py_int (seats \<lparr>listing_id = ''77'', seats = ''3'', listing_type = ''T'', area = ''N'',
           section = ''A'', row = ''5'', price = 80\<rparr>) = Inr 3"
    by (simp add: py_int_3)
  show ?thesis
    using max_seats_exclusive [OF h4, of
          "\<lparr>event_id = ''e'', time_delay = 2, min_seats = 1, max_seats = 4,
           max_price = None, skip_meetup_delivery = True\<rparr>"
          "Some \<lparr>available = True, block = Some \<lparr>block_id = JStr ''b''\<rparr>, delivery_plan = []\<rparr>"
          new_bot]
        max_seats_exclusive [OF h3, of
          "\<lparr>event_id = ''e'', time_delay = 2, min_seats = 1, max_seats = 4,
           max_price = None, skip_meetup_delivery = True\<rparr>"
          "Some \<lparr>available = True, block = Some \<lparr>block_id = JStr ''b''\<rparr>, delivery_plan = []\<rparr>"
          new_bot
          "\<lparr>available = True, block = Some \<lparr>block_id = JStr ''b''\<rparr>, delivery_plan = []\<rparr>"]
    by simp
qed

subsection \<open>The opened set along a run\<close>

lemma open_ticket_cases:
  "open_ticket browser l bid s = (r, s') \<Longrightarrow>
     (r = Inr False \<and> opened_pages s' = opened_pages s \<and> opened_tickets s' = opened_tickets s
        \<and> tickets_opened s' = tickets_opened s \<and> browser \<noteq> None)
   \<or> (r = Inr True \<and> opened_pages s' = opened_pages s @ [(l, bid)]
        \<and> opened_tickets s' = insert (listing_id l) (opened_tickets s)
        \<and> tickets_opened s' = tickets_opened s + 1 \<and> browser = None)"
  by (auto simp: open_ticket_def split: option.splits)

lemma open_ticket_frame [simp]:
  "found_log (snd (open_ticket browser l bid s)) = found_log s"
  "tickets_processed (snd (open_ticket browser l bid s)) = tickets_processed s"
  "ready (snd (open_ticket browser l bid s)) = ready s"
  by (simp_all add: open_ticket_def ready_def split: option.splits)

text \<open>The body of \<^verbatim>\<open>_process_listing\<close> with the pair of the filter taken apart.\<close>

lemma process_listing_unfold:
  "process_listing config io l s =
     (if \<not> ready s then (Inr False, s)
      else
        case get_ticket_availability (page_evaluate io) of
          Inl e \<Rightarrow> (Inl e, record_observation l (s\<lparr>tickets_processed := tickets_processed s + 1\<rparr>))
        | Inr ta \<Rightarrow>
           (case fst (should_skip_listing config l ta
                        (record_observation l (s\<lparr>tickets_processed := tickets_processed s + 1\<rparr>))) of
              Inl e \<Rightarrow>
                (Inl e, snd (should_skip_listing config l ta
                         (record_observation l (s\<lparr>tickets_processed := tickets_processed s + 1\<rparr>))))
            | Inr skip \<Rightarrow>
                if skip then
                  (Inr False, set_status (ticket_key l) ''Skipped''
                     (snd (should_skip_listing config l ta
                         (record_observation l (s\<lparr>tickets_processed := tickets_processed s + 1\<rparr>)))))
                else if listing_id l \<in> opened_tickets s then
                  (Inr False,
                   add_status_message (AlreadyOpenedTicket (section l) (row l)) ''dim yellow''
                     (set_status (ticket_key l) ''Already Opened''
                        (snd (should_skip_listing config l ta
                           (record_observation l (s\<lparr>tickets_processed := tickets_processed s + 1\<rparr>))))))
                else
                  (case ta of
                     None \<Rightarrow>
                       (Inl AttributeError,
                        snd (should_skip_listing config l ta
                           (record_observation l (s\<lparr>tickets_processed := tickets_processed s + 1\<rparr>))))
                   | Some a \<Rightarrow>
                      (case block a of
                         None \<Rightarrow>
                           (Inr False,
                            add_status_message (NoBlockInformation (section l)) ''red''
                              (set_status (ticket_key l) ''No Block Info''
                                 (snd (should_skip_listing config l ta
                                    (record_observation l
                                       (s\<lparr>tickets_processed := tickets_processed s + 1\<rparr>))))))
                       | Some b \<Rightarrow>
                           open_ticket (webbrowser_open io) l (block_id b)
                             (add_status_message (OpeningTicket (section l) (row l)) ''cyan bold''
                                (snd (should_skip_listing config l ta
                                   (record_observation l
                                      (s\<lparr>tickets_processed := tickets_processed s + 1\<rparr>)))))))))"
proof -
  have eq: "opened_tickets (snd (should_skip_listing config l ta
                (record_observation l (s\<lparr>tickets_processed := tickets_processed s + 1\<rparr>))))
            = opened_tickets s" for ta
    by simp
  show ?thesis
    unfolding process_listing_def Let_def
    by (simp only: eq [symmetric] split_beta cong: sum.case_cong)
       (simp split: sum.splits prod.splits)
qed


lemma ready_update [simp]:
  "ready (s\<lparr>tickets_processed := n\<rparr>) = ready s"
  "ready (s\<lparr>found_log := x\<rparr>) = ready s"
  by (simp_all add: ready_def)

lemma process_listing_frame [simp]:
  "found_log (snd (process_listing config io l s)) = found_log s"
  "ready (snd (process_listing config io l s)) = ready s"
  by (simp_all add: process_listing_unfold split: sum.splits option.splits)

lemma process_listing_cases:
  "(fst (process_listing config io l s) \<noteq> Inr True
      \<and> opened_pages (snd (process_listing config io l s)) = opened_pages s
      \<and> opened_tickets (snd (process_listing config io l s)) = opened_tickets s
      \<and> tickets_opened (snd (process_listing config io l s)) = tickets_opened s)
   \<or> (\<exists>b. fst (process_listing config io l s) = Inr True \<and> ready s
          \<and> listing_id l \<notin> opened_tickets s
          \<and> opened_pages (snd (process_listing config io l s)) = opened_pages s @ [(l, b)]
          \<and> opened_tickets (snd (process_listing config io l s))
              = insert (listing_id l) (opened_tickets s)
          \<and> tickets_opened (snd (process_listing config io l s)) = tickets_opened s + 1)"
  by (simp add: process_listing_unfold open_ticket_def split: sum.splits option.splits)

lemma process_listing_invariant:
  assumes inv: "dedup_invariant s"
  shows "dedup_invariant (snd (process_listing config io l s))"
proof -
  let ?s' = "snd (process_listing config io l s)"
  from process_listing_cases [of config io l s] consider
    (same) "opened_pages ?s' = opened_pages s" "opened_tickets ?s' = opened_tickets s"
  | (opened) b where "ready s" "listing_id l \<notin> opened_tickets s"
      "opened_pages ?s' = opened_pages s @ [(l, b)]"
      "opened_tickets ?s' = insert (listing_id l) (opened_tickets s)"
    by blast
  then show ?thesis
  proof cases
    case same
    with inv show ?thesis by (simp add: dedup_invariant_def)
  next
    case opened
    from inv have d: "distinct (map (\<lambda>p. listing_id (fst p)) (opened_pages s))"
      and sub: "(\<lambda>p. listing_id (fst p)) ` set (opened_pages s) \<subseteq> opened_tickets s"
      by (simp_all add: dedup_invariant_def)
    from sub opened(2) have fresh: "listing_id l \<notin> (\<lambda>p. listing_id (fst p)) ` set (opened_pages s)"
      by blast
    from d fresh have "distinct (map (\<lambda>p. listing_id (fst p)) (opened_pages ?s'))"
      by (simp add: opened(3))
    moreover from sub have "(\<lambda>p. listing_id (fst p)) ` set (opened_pages ?s') \<subseteq> opened_tickets ?s'"
      by (auto simp: opened(3,4))
    moreover have "ready ?s'" using opened(1) by simp
    ultimately show ?thesis by (simp add: dedup_invariant_def)
  qed
qed

lemma process_listing_opened_tickets_mono:
  "opened_tickets s \<subseteq> opened_tickets (snd (process_listing config io l s))"
  using process_listing_cases [of config io l s] by auto

lemma dedup_invariant_found_log [simp]:
  "dedup_invariant (s\<lparr>found_log := x\<rparr>) = dedup_invariant s"
  by (simp add: dedup_invariant_def ready_def)

lemma dedup_invariant_add_status_message [simp]:
  "dedup_invariant (add_status_message m st s) = dedup_invariant s"
  by (simp add: dedup_invariant_def)

lemma process_listings_invariant:
  "dedup_invariant s \<Longrightarrow> dedup_invariant (snd (process_listings config cs s))"
proof (induction cs arbitrary: s)
  case Nil
  then show ?case by simp
next
  case (Cons c cs)
  let ?p = "process_listing config (snd c) (fst c) (s\<lparr>found_log := found_log s @ [fst c]\<rparr>)"
  have inv: "dedup_invariant (snd ?p)"
    using Cons.prems by (intro process_listing_invariant) simp
  show ?case
  proof (cases "fst ?p")
    case (Inl e)
    then show ?thesis using inv by (simp add: split_beta)
  next
    case (Inr b)
    then show ?thesis using Cons.IH [OF inv] by (simp add: split_beta)
  qed
qed

lemma process_listings_ready [simp]:
  "ready (snd (process_listings config cs s)) = ready s"
proof (induction cs arbitrary: s)
  case Nil
  then show ?case by simp
next
  case (Cons c cs)
  have r: "ready (s\<lparr>found_log := found_log s @ [fst c]\<rparr>) = ready s" by (simp add: ready_def)
  show ?case
    by (cases "fst (process_listing config (snd c) (fst c) (s\<lparr>found_log := found_log s @ [fst c]\<rparr>))")
       (simp_all add: split_beta Cons.IH r)
qed

lemma monitoring_cycle_invariant:
  "dedup_invariant s \<Longrightarrow> dedup_invariant (monitoring_cycle config fetched s)"
proof -
  assume inv: "dedup_invariant s"
  have "dedup_invariant (snd (process_listings config cs (add_status_message m st s)))" for cs m st
    using inv by (intro process_listings_invariant) simp
  then show ?thesis
    using inv by (simp add: monitoring_cycle_def split_beta split: sum.splits option.splits)
qed

lemma monitoring_cycle_ready [simp]:
  "ready (monitoring_cycle config fetched s) = ready s"
  by (simp add: monitoring_cycle_def split_beta split: sum.splits option.splits)

lemma monitoring_cycles_invariant:
  "dedup_invariant s \<Longrightarrow> dedup_invariant (monitoring_cycles config cycles s)"
  by (induction cycles arbitrary: s) (simp_all add: monitoring_cycle_invariant)

lemma monitoring_cycles_ready [simp]:
  "ready (monitoring_cycles config cycles s) = ready s"
  by (induction cycles arbitrary: s) simp_all

lemma initialize_pages [simp]:
  "opened_pages (snd (initialize browser login s)) = opened_pages s"
  "opened_tickets (snd (initialize browser login s)) = opened_tickets s"
  by (simp_all add: initialize_def Let_def split: option.splits sum.splits)

lemma initialize_ready:
  "fst (initialize browser login s) \<Longrightarrow> ready (snd (initialize browser login s))"
  by (auto simp: initialize_def Let_def split: option.splits sum.splits)

lemma run_monitoring_loop_invariant:
  "dedup_invariant (run_monitoring_loop config browser login cycles new_bot)"
proof (cases "fst (initialize browser login new_bot)")
  case False
  have "opened_pages (snd (initialize browser login new_bot)) = []"
    by (simp add: new_bot_def)
  then have "dedup_invariant (snd (initialize browser login new_bot))"
    by (simp add: dedup_invariant_def)
  with False show ?thesis by (simp add: run_monitoring_loop_def split_beta)
next
  case True
  have "opened_pages (snd (initialize browser login new_bot)) = []"
    by (simp add: new_bot_def)
  then have "dedup_invariant (snd (initialize browser login new_bot))"
    by (simp add: dedup_invariant_def)
  then have "dedup_invariant (monitoring_cycles config cycles
       (add_status_message LogsWrittenTo ''dim''
          (add_status_message EnteringMainLoop ''cyan'' (snd (initialize browser login new_bot)))))"
    by (intro monitoring_cycles_invariant) simp
  with True show ?thesis by (simp add: run_monitoring_loop_def split_beta)
qed

subsection \<open>At most one page for every listing\<close>

lemma distinct_ids_filter_identity:
  assumes "distinct (map (\<lambda>p. listing_id (fst p)) ps)"
  shows "length (filter (\<lambda>p. identity (fst p) = i) ps) \<le> 1"
  using assms
proof (induction ps)
  case Nil
  then show ?case by simp
next
  case (Cons p ps)
  show ?case
  proof (cases "identity (fst p) = i")
    case False
    with Cons show ?thesis by simp
  next
    case True
    have "filter (\<lambda>q. identity (fst q) = i) ps = []"
    proof (rule ccontr)
      assume "filter (\<lambda>q. identity (fst q) = i) ps \<noteq> []"
      then obtain q where q: "q \<in> set ps" "identity (fst q) = i"
        by (metis (mono_tags, lifting) filter_False)
      with True have "listing_id (fst p) = listing_id (fst q)"
        by (auto simp: identity_def)
      moreover from q(1) have "listing_id (fst q) \<in> (\<lambda>p. listing_id (fst p)) ` set ps"
        by (rule imageI)
      moreover from Cons.prems have "listing_id (fst p) \<notin> (\<lambda>p. listing_id (fst p)) ` set ps"
        by simp
      ultimately show False by simp
    qed
    with True show ?thesis by simp
  qed
qed

lemma already_opened_step:
  assumes "ready s"
    and "listing_id l \<in> opened_tickets s"
    and "get_ticket_availability (page_evaluate io) = Inr ta"
    and "fst (should_skip_listing config l ta s) = Inr False"
  shows "fst (process_listing config io l s) = Inr False
    \<and> map_option status (found_tickets (snd (process_listing config io l s)) (ticket_key l))
        = Some ''Already Opened''
    \<and> opened_pages (snd (process_listing config io l s)) = opened_pages s
    \<and> opened_tickets (snd (process_listing config io l s)) = opened_tickets s
    \<and> tickets_opened (snd (process_listing config io l s)) = tickets_opened s"
proof -
  let ?s1 = "record_observation l (s\<lparr>tickets_processed := tickets_processed s + 1\<rparr>)"
  have pass: "fst (should_skip_listing config l ta ?s1) = Inr False"
    using assms(4) should_skip_fst [of config l ta ?s1 s] by simp
  obtain i where i: "found_tickets ?s1 (ticket_key l) = Some i"
    using record_observation_entry [of l "s\<lparr>tickets_processed := tickets_processed s + 1\<rparr>"] by blast
  obtain f where "found_tickets (snd (should_skip_listing config l ta ?s1)) (ticket_key l)
      = map_option f (found_tickets ?s1 (ticket_key l))"
    using should_skip_found_tickets [of config l ta ?s1 "ticket_key l"] by blast
  with i have j: "found_tickets (snd (should_skip_listing config l ta ?s1)) (ticket_key l) = Some (f i)"
    by simp
  show ?thesis
    using assms(1-3) pass j
    by (simp add: process_listing_unfold found_tickets_set_status)
qed

text \<open>
  Claim C1. Whatever the ports answer and however many passes the loop makes from a
  fresh bot, the list of opened pages holds at most one page for every identity
  (section, row, seats, listing id), indeed at most one for every listing id; a page
  is what a returning \<^verbatim>\<open>webbrowser.open\<close> and the outcome \<^verbatim>\<open>Opened in Browser\<close>
  leave behind (a raise of \<^verbatim>\<open>webbrowser.open\<close> opens no page and is retried by a later
  pass). And in every state of a logged-in bot, a listing whose id is in the opened
  set and that passes the filter returns \<open>False\<close> with the outcome
  \<^verbatim>\<open>Already Opened\<close>, and neither the opened pages nor the opened set nor the counter
  of opened tickets change.
\<close>

theorem open_at_most_once:
  "(\<forall>i. length (filter (\<lambda>p. identity (fst p) = i)
            (opened_pages (run_monitoring_loop config browser login cycles new_bot))) \<le> 1)
   \<and> distinct (map (\<lambda>p. listing_id (fst p))
        (opened_pages (run_monitoring_loop config browser login cycles new_bot)))
   \<and> (ready s \<and> listing_id l \<in> opened_tickets s
        \<and> get_ticket_availability (page_evaluate io) = Inr ta
        \<and> fst (should_skip_listing config l ta s) = Inr False \<longrightarrow>
       fst (process_listing config io l s) = Inr False
       \<and> map_option status (found_tickets (snd (process_listing config io l s)) (ticket_key l))
           = Some ''Already Opened''
       \<and> opened_pages (snd (process_listing config io l s)) = opened_pages s
       \<and> opened_tickets (snd (process_listing config io l s)) = opened_tickets s
       \<and> tickets_opened (snd (process_listing config io l s)) = tickets_opened s)"
proof -
  have d: "distinct (map (\<lambda>p. listing_id (fst p))
        (opened_pages (run_monitoring_loop config browser login cycles new_bot)))"
    using run_monitoring_loop_invariant [of config browser login cycles]
    by (simp add: dedup_invariant_def)
  show ?thesis
    using d distinct_ids_filter_identity [OF d] already_opened_step [of s l io ta config]
    by blast
qed

theorem open_at_most_once_witness:
  "opened_pages (run_monitoring_loop (default_config ''e1'') None (Inr (Some ''token''))
      [Inr (Some [(\<lparr>listing_id = ''77'', seats = ''2'', listing_type = ''T'', area = ''N'',
        section = ''A'', row = ''5'', price = 80\<rparr>,
       \<lparr>page_evaluate = Inr (JObj [(''available'', JBool True),
           (''block'', JObj [(''blockId'', JStr ''b7'')])]),
        webbrowser_open = None\<rparr>)]), Inr (Some [(\<lparr>listing_id = ''77'', seats = ''2'', listing_type = ''T'', area = ''N'',
        section = ''A'', row = ''5'', price = 80\<rparr>,
       \<lparr>page_evaluate = Inr (JObj [(''available'', JBool True),
           (''block'', JObj [(''blockId'', JStr ''b7'')])]),
        webbrowser_open = None\<rparr>)])]
      new_bot) =
     [(\<lparr>listing_id = ''77'', seats = ''2'', listing_type = ''T'', area = ''N'',
        section = ''A'', row = ''5'', price = 80\<rparr>, JStr ''b7'')]
   \<and> tickets_opened (run_monitoring_loop (default_config ''e1'') None (Inr (Some ''token''))
      [Inr (Some [(\<lparr>listing_id = ''77'', seats = ''2'', listing_type = ''T'', area = ''N'',
        section = ''A'', row = ''5'', price = 80\<rparr>,
       \<lparr>page_evaluate = Inr (JObj [(''available'', JBool True),
           (''block'', JObj [(''blockId'', JStr ''b7'')])]),
        webbrowser_open = None\<rparr>)]), Inr (Some [(\<lparr>listing_id = ''77'', seats = ''2'', listing_type = ''T'', area = ''N'',
        section = ''A'', row = ''5'', price = 80\<rparr>,
       \<lparr>page_evaluate = Inr (JObj [(''available'', JBool True),
           (''block'', JObj [(''blockId'', JStr ''b7'')])]),
        webbrowser_open = None\<rparr>)])]
      new_bot) = 1
   \<and> map_option status (found_tickets (run_monitoring_loop (default_config ''e1'') None (Inr (Some ''token''))
      [Inr (Some [(\<lparr>listing_id = ''77'', seats = ''2'', listing_type = ''T'', area = ''N'',
        section = ''A'', row = ''5'', price = 80\<rparr>,
       \<lparr>page_evaluate = Inr (JObj [(''available'', JBool True),
           (''block'', JObj [(''blockId'', JStr ''b7'')])]),
        webbrowser_open = None\<rparr>)]), Inr (Some [(\<lparr>listing_id = ''77'', seats = ''2'', listing_type = ''T'', area = ''N'',
        section = ''A'', row = ''5'', price = 80\<rparr>,
       \<lparr>page_evaluate = Inr (JObj [(''available'', JBool True),
           (''block'', JObj [(''blockId'', JStr ''b7'')])]),
        webbrowser_open = None\<rparr>)])]
      new_bot) ''A-5-2-77'') = Some ''Already Opened''
   \<and> ready (run_monitoring_loop (default_config ''e1'') None (Inr (Some ''token''))
      [Inr (Some [(\<lparr>listing_id = ''77'', seats = ''2'', listing_type = ''T'', area = ''N'',
        section = ''A'', row = ''5'', price = 80\<rparr>,
       \<lparr>page_evaluate = Inr (JObj [(''available'', JBool True),
           (''block'', JObj [(''blockId'', JStr ''b7'')])]),
        webbrowser_open = None\<rparr>)])]
      new_bot)
   \<and> listing_id \<lparr>listing_id = ''77'', seats = ''2'', listing_type = ''T'', area = ''N'',
        section = ''A'', row = ''5'', price = 80\<rparr> \<in> opened_tickets (run_monitoring_loop (default_config ''e1'') None (Inr (Some ''token''))
      [Inr (Some [(\<lparr>listing_id = ''77'', seats = ''2'', listing_type = ''T'', area = ''N'',
        section = ''A'', row = ''5'', price = 80\<rparr>,
       \<lparr>page_evaluate = Inr (JObj [(''available'', JBool True),
           (''block'', JObj [(''blockId'', JStr ''b7'')])]),
        webbrowser_open = None\<rparr>)])]
      new_bot)
   \<and> fst (should_skip_listing (default_config ''e1'') \<lparr>listing_id = ''77'', seats = ''2'', listing_type = ''T'', area = ''N'',
        section = ''A'', row = ''5'', price = 80\<rparr>
         (Some \<lparr>available = True, block = Some \<lparr>block_id = JStr ''b7''\<rparr>, delivery_plan = []\<rparr>) (run_monitoring_loop (default_config ''e1'') None (Inr (Some ''token''))
      [Inr (Some [(\<lparr>listing_id = ''77'', seats = ''2'', listing_type = ''T'', area = ''N'',
        section = ''A'', row = ''5'', price = 80\<rparr>,
       \<lparr>page_evaluate = Inr (JObj [(''available'', JBool True),
           (''block'', JObj [(''blockId'', JStr ''b7'')])]),
        webbrowser_open = None\<rparr>)])]
      new_bot)) = Inr False
   \<and> fst (process_listing (default_config ''e1'') \<lparr>page_evaluate = Inr (JObj [(''available'', JBool True),
           (''block'', JObj [(''blockId'', JStr ''b7'')])]),
        webbrowser_open = None\<rparr> \<lparr>listing_id = ''77'', seats = ''2'', listing_type = ''T'', area = ''N'',
        section = ''A'', row = ''5'', price = 80\<rparr> (run_monitoring_loop (default_config ''e1'') None (Inr (Some ''token''))
      [Inr (Some [(\<lparr>listing_id = ''77'', seats = ''2'', listing_type = ''T'', area = ''N'',
        section = ''A'', row = ''5'', price = 80\<rparr>,
       \<lparr>page_evaluate = Inr (JObj [(''available'', JBool True),
           (''block'', JObj [(''blockId'', JStr ''b7'')])]),
        webbrowser_open = None\<rparr>)])]
      new_bot)) = Inr False
   \<and> opened_pages (snd (process_listing (default_config ''e1'') \<lparr>page_evaluate = Inr (JObj [(''available'', JBool True),
           (''block'', JObj [(''blockId'', JStr ''b7'')])]),
        webbrowser_open = None\<rparr> \<lparr>listing_id = ''77'', seats = ''2'', listing_type = ''T'', area = ''N'',
        section = ''A'', row = ''5'', price = 80\<rparr> (run_monitoring_loop (default_config ''e1'') None (Inr (Some ''token''))
      [Inr (Some [(\<lparr>listing_id = ''77'', seats = ''2'', listing_type = ''T'', area = ''N'',
        section = ''A'', row = ''5'', price = 80\<rparr>,
       \<lparr>page_evaluate = Inr (JObj [(''available'', JBool True),
           (''block'', JObj [(''blockId'', JStr ''b7'')])]),
        webbrowser_open = None\<rparr>)])]
      new_bot))) =
     [(\<lparr>listing_id = ''77'', seats = ''2'', listing_type = ''T'', area = ''N'',
        section = ''A'', row = ''5'', price = 80\<rparr>, JStr ''b7'')]"
  using open_at_most_once [of "default_config ''e1''" None "Inr (Some ''token'')"
      "[Inr (Some [(\<lparr>listing_id = ''77'', seats = ''2'', listing_type = ''T'', area = ''N'',
        section = ''A'', row = ''5'', price = 80\<rparr>,
       \<lparr>page_evaluate = Inr (JObj [(''available'', JBool True),
           (''block'', JObj [(''blockId'', JStr ''b7'')])]),
        webbrowser_open = None\<rparr>)]), Inr (Some [(\<lparr>listing_id = ''77'', seats = ''2'', listing_type = ''T'', area = ''N'',
        section = ''A'', row = ''5'', price = 80\<rparr>,
       \<lparr>page_evaluate = Inr (JObj [(''available'', JBool True),
           (''block'', JObj [(''blockId'', JStr ''b7'')])]),
        webbrowser_open = None\<rparr>)])]"
      "run_monitoring_loop (default_config ''e1'') None (Inr (Some ''token''))
      [Inr (Some [(\<lparr>listing_id = ''77'', seats = ''2'', listing_type = ''T'', area = ''N'',
        section = ''A'', row = ''5'', price = 80\<rparr>,
       \<lparr>page_evaluate = Inr (JObj [(''available'', JBool True),
           (''block'', JObj [(''blockId'', JStr ''b7'')])]),
        webbrowser_open = None\<rparr>)])]
      new_bot"
      "\<lparr>listing_id = ''77'', seats = ''2'', listing_type = ''T'', area = ''N'',
        section = ''A'', row = ''5'', price = 80\<rparr>"
      "\<lparr>page_evaluate = Inr (JObj [(''available'', JBool True),
           (''block'', JObj [(''blockId'', JStr ''b7'')])]),
        webbrowser_open = None\<rparr>"
      "Some \<lparr>available = True, block = Some \<lparr>block_id = JStr ''b7''\<rparr>, delivery_plan = []\<rparr>"]
  by (simp add: run_eval)

text \<open>
  Claim C10. The guard is keyed by the listing id alone. Let \<open>s\<close> be a state inside a
  pass, after any earlier passes and any candidates of the current one, and let a
  page have been opened for \<open>l1\<close>. A listing \<open>l2\<close> with the id of \<open>l1\<close>, whatever its
  section, row and seats, that passes the filter gets the outcome
  \<^verbatim>\<open>Already Opened\<close>, and no page is opened for it.
\<close>

theorem same_id_already_opened:
  assumes "s = snd (process_listings config before
                 (add_status_message (TicketsFound k) ''cyan bold''
                    (run_monitoring_loop config browser login cycles new_bot)))"
    and "(l1, b) \<in> set (opened_pages s)"
    and "listing_id l2 = listing_id l1"
    and "get_ticket_availability (page_evaluate io) = Inr ta"
    and "fst (should_skip_listing config l2 ta s) = Inr False"
  shows "fst (process_listing config io l2 s) = Inr False
    \<and> map_option status (found_tickets (snd (process_listing config io l2 s)) (ticket_key l2))
        = Some ''Already Opened''
    \<and> opened_pages (snd (process_listing config io l2 s)) = opened_pages s
    \<and> opened_tickets (snd (process_listing config io l2 s)) = opened_tickets s
    \<and> tickets_opened (snd (process_listing config io l2 s)) = tickets_opened s"
proof -
  have "dedup_invariant (add_status_message (TicketsFound k) ''cyan bold''
                    (run_monitoring_loop config browser login cycles new_bot))"
    using run_monitoring_loop_invariant [of config browser login cycles] by simp
  then have inv: "dedup_invariant s"
    unfolding assms(1) by (rule process_listings_invariant)
  from inv assms(2) have r: "ready s" by (auto simp: dedup_invariant_def)
  from inv assms(2) have "listing_id l1 \<in> opened_tickets s"
    by (force simp: dedup_invariant_def)
  with assms(3) have m: "listing_id l2 \<in> opened_tickets s" by simp
  show ?thesis by (rule already_opened_step [OF r m assms(4) assms(5)])
qed

theorem same_id_already_opened_witness:
  "(\<lparr>listing_id = ''77'', seats = ''2'', listing_type = ''T'', area = ''N'',
        section = ''A'', row = ''5'', price = 80\<rparr>, JStr ''b7'') \<in> set (opened_pages (snd (process_listings (default_config ''e1'') []
      (add_status_message (TicketsFound 1) ''cyan bold'' (run_monitoring_loop (default_config ''e1'') None (Inr (Some ''token''))
      [Inr (Some [(\<lparr>listing_id = ''77'', seats = ''2'', listing_type = ''T'', area = ''N'',
        section = ''A'', row = ''5'', price = 80\<rparr>,
       \<lparr>page_evaluate = Inr (JObj [(''available'', JBool True),
           (''block'', JObj [(''blockId'', JStr ''b7'')])]),
        webbrowser_open = None\<rparr>)])]
      new_bot)))))
   \<and> fst (should_skip_listing (default_config ''e1'') \<lparr>listing_id = ''77'', seats = ''3'', listing_type = ''T'', area = ''S'',
        section = ''B'', row = ''9'', price = 95\<rparr>
         (Some \<lparr>available = True, block = Some \<lparr>block_id = JStr ''b7''\<rparr>, delivery_plan = []\<rparr>) (snd (process_listings (default_config ''e1'') []
      (add_status_message (TicketsFound 1) ''cyan bold'' (run_monitoring_loop (default_config ''e1'') None (Inr (Some ''token''))
      [Inr (Some [(\<lparr>listing_id = ''77'', seats = ''2'', listing_type = ''T'', area = ''N'',
        section = ''A'', row = ''5'', price = 80\<rparr>,
       \<lparr>page_evaluate = Inr (JObj [(''available'', JBool True),
           (''block'', JObj [(''blockId'', JStr ''b7'')])]),
        webbrowser_open = None\<rparr>)])]
      new_bot))))) = Inr False
   \<and> fst (process_listing (default_config ''e1'') \<lparr>page_evaluate = Inr (JObj [(''available'', JBool True),
           (''block'', JObj [(''blockId'', JStr ''b7'')])]),
        webbrowser_open = None\<rparr> \<lparr>listing_id = ''77'', seats = ''3'', listing_type = ''T'', area = ''S'',
        section = ''B'', row = ''9'', price = 95\<rparr> (snd (process_listings (default_config ''e1'') []
      (add_status_message (TicketsFound 1) ''cyan bold'' (run_monitoring_loop (default_config ''e1'') None (Inr (Some ''token''))
      [Inr (Some [(\<lparr>listing_id = ''77'', seats = ''2'', listing_type = ''T'', area = ''N'',
        section = ''A'', row = ''5'', price = 80\<rparr>,
       \<lparr>page_evaluate = Inr (JObj [(''available'', JBool True),
           (''block'', JObj [(''blockId'', JStr ''b7'')])]),
        webbrowser_open = None\<rparr>)])]
      new_bot))))) = Inr False
   \<and> map_option status (found_tickets (snd (process_listing (default_config ''e1'') \<lparr>page_evaluate = Inr (JObj [(''available'', JBool True),
           (''block'', JObj [(''blockId'', JStr ''b7'')])]),
        webbrowser_open = None\<rparr> \<lparr>listing_id = ''77'', seats = ''3'', listing_type = ''T'', area = ''S'',
        section = ''B'', row = ''9'', price = 95\<rparr> (snd (process_listings (default_config ''e1'') []
      (add_status_message (TicketsFound 1) ''cyan bold'' (run_monitoring_loop (default_config ''e1'') None (Inr (Some ''token''))
      [Inr (Some [(\<lparr>listing_id = ''77'', seats = ''2'', listing_type = ''T'', area = ''N'',
        section = ''A'', row = ''5'', price = 80\<rparr>,
       \<lparr>page_evaluate = Inr (JObj [(''available'', JBool True),
           (''block'', JObj [(''blockId'', JStr ''b7'')])]),
        webbrowser_open = None\<rparr>)])]
      new_bot)))))) ''B-9-3-77'')
        = Some ''Already Opened''
   \<and> opened_pages (snd (process_listing (default_config ''e1'') \<lparr>page_evaluate = Inr (JObj [(''available'', JBool True),
           (''block'', JObj [(''blockId'', JStr ''b7'')])]),
        webbrowser_open = None\<rparr> \<lparr>listing_id = ''77'', seats = ''3'', listing_type = ''T'', area = ''S'',
        section = ''B'', row = ''9'', price = 95\<rparr> (snd (process_listings (default_config ''e1'') []
      (add_status_message (TicketsFound 1) ''cyan bold'' (run_monitoring_loop (default_config ''e1'') None (Inr (Some ''token''))
      [Inr (Some [(\<lparr>listing_id = ''77'', seats = ''2'', listing_type = ''T'', area = ''N'',
        section = ''A'', row = ''5'', price = 80\<rparr>,
       \<lparr>page_evaluate = Inr (JObj [(''available'', JBool True),
           (''block'', JObj [(''blockId'', JStr ''b7'')])]),
        webbrowser_open = None\<rparr>)])]
      new_bot)))))) =
     [(\<lparr>listing_id = ''77'', seats = ''2'', listing_type = ''T'', area = ''N'',
        section = ''A'', row = ''5'', price = 80\<rparr>, JStr ''b7'')]"
  using same_id_already_opened [of "snd (process_listings (default_config ''e1'') []
      (add_status_message (TicketsFound 1) ''cyan bold'' (run_monitoring_loop (default_config ''e1'') None (Inr (Some ''token''))
      [Inr (Some [(\<lparr>listing_id = ''77'', seats = ''2'', listing_type = ''T'', area = ''N'',
        section = ''A'', row = ''5'', price = 80\<rparr>,
       \<lparr>page_evaluate = Inr (JObj [(''available'', JBool True),
           (''block'', JObj [(''blockId'', JStr ''b7'')])]),
        webbrowser_open = None\<rparr>)])]
      new_bot)))"
      "default_config ''e1''" "[]" 1 None "Inr (Some ''token'')" "[Inr (Some [(\<lparr>listing_id = ''77'', seats = ''2'', listing_type = ''T'', area = ''N'',
        section = ''A'', row = ''5'', price = 80\<rparr>,
       \<lparr>page_evaluate = Inr (JObj [(''available'', JBool True),
           (''block'', JObj [(''blockId'', JStr ''b7'')])]),
        webbrowser_open = None\<rparr>)])]"
      "\<lparr>listing_id = ''77'', seats = ''2'', listing_type = ''T'', area = ''N'',
        section = ''A'', row = ''5'', price = 80\<rparr>" "JStr ''b7''" "\<lparr>listing_id = ''77'', seats = ''3'', listing_type = ''T'', area = ''S'',
        section = ''B'', row = ''9'', price = 95\<rparr>" "\<lparr>page_evaluate = Inr (JObj [(''available'', JBool True),
           (''block'', JObj [(''blockId'', JStr ''b7'')])]),
        webbrowser_open = None\<rparr>" "Some \<lparr>available = True, block = Some \<lparr>block_id = JStr ''b7''\<rparr>, delivery_plan = []\<rparr>"]
  by (simp add: run_eval)

subsection \<open>The order of a pass\<close>

lemma process_listings_Cons:
  "process_listings config (c # cs) s =
     (case fst (process_listing config (snd c) (fst c) (s\<lparr>found_log := found_log s @ [fst c]\<rparr>)) of
        Inl e \<Rightarrow>
          (Some e, snd (process_listing config (snd c) (fst c) (s\<lparr>found_log := found_log s @ [fst c]\<rparr>)))
      | Inr b \<Rightarrow>
          process_listings config cs
            (snd (process_listing config (snd c) (fst c) (s\<lparr>found_log := found_log s @ [fst c]\<rparr>))))"
  by (simp add: split_beta split: sum.splits)

lemma process_listings_found_log_complete:
  "fst (process_listings config cs s) = None \<Longrightarrow>
     found_log (snd (process_listings config cs s)) = found_log s @ map fst cs"
proof (induction cs arbitrary: s)
  case Nil
  then show ?case by simp
next
  case (Cons c cs)
  let ?p = "process_listing config (snd c) (fst c) (s\<lparr>found_log := found_log s @ [fst c]\<rparr>)"
  show ?case
  proof (cases "fst ?p")
    case (Inl e)
    then have "process_listings config (c # cs) s = (Some e, snd ?p)"
      by (simp only: process_listings_Cons sum.case)
    with Cons.prems show ?thesis by (simp only: fst_conv option.distinct)
  next
    case (Inr b)
    then have eq: "process_listings config (c # cs) s = process_listings config cs (snd ?p)"
      by (simp only: process_listings_Cons sum.case)
    with Cons.prems have "fst (process_listings config cs (snd ?p)) = None"
      by (simp only:)
    from Cons.IH [OF this]
    have "found_log (snd (process_listings config cs (snd ?p))) = found_log (snd ?p) @ map fst cs" .
    also have "found_log (snd ?p) = found_log s @ [fst c]"
      by (simp only: process_listing_frame) simp
    finally show ?thesis
      by (simp only: eq list.map append_assoc append_Cons append_Nil)
  qed
qed




subsection \<open>The steps of \<^verbatim>\<open>_process_listing\<close>\<close>

lemma should_skip_state_unchanged:
  "fst (should_skip_listing config l ta s) = Inl e \<Longrightarrow> snd (should_skip_listing config l ta s) = s"
  "fst (should_skip_listing config l ta s) = Inr False \<Longrightarrow> snd (should_skip_listing config l ta s) = s"
  by (auto simp: should_skip_listing_def split: sum.splits option.splits if_splits)

lemma should_skip_None:
  "fst (should_skip_listing config l None s) \<noteq> Inr False"
  by (simp add: should_skip_listing_def split: sum.splits)

lemma observed_entry:
  "\<exists>i. found_tickets (snd (should_skip_listing config l ta
            (record_observation l (s\<lparr>tickets_processed := tickets_processed s + 1\<rparr>))))
          (ticket_key l) = Some i"
proof -
  let ?s1 = "record_observation l (s\<lparr>tickets_processed := tickets_processed s + 1\<rparr>)"
  obtain i where i: "found_tickets ?s1 (ticket_key l) = Some i"
    using record_observation_entry [of l "s\<lparr>tickets_processed := tickets_processed s + 1\<rparr>"]
    by (elim exE conjE)
  obtain f where "found_tickets (snd (should_skip_listing config l ta ?s1)) (ticket_key l)
      = map_option f (found_tickets ?s1 (ticket_key l))"
    using should_skip_found_tickets [of config l ta ?s1 "ticket_key l"] by (elim exE)
  with i show ?thesis by simp
qed

lemma rejected_step:
  assumes "ready s"
    and "get_ticket_availability (page_evaluate io) = Inr ta"
    and "fst (should_skip_listing config l ta s) = Inr True"
  shows "fst (process_listing config io l s) = Inr False
    \<and> map_option status (found_tickets (snd (process_listing config io l s)) (ticket_key l))
        = Some ''Skipped''
    \<and> opened_pages (snd (process_listing config io l s)) = opened_pages s
    \<and> opened_tickets (snd (process_listing config io l s)) = opened_tickets s
    \<and> tickets_opened (snd (process_listing config io l s)) = tickets_opened s"
proof -
  let ?s1 = "record_observation l (s\<lparr>tickets_processed := tickets_processed s + 1\<rparr>)"
  have rej: "fst (should_skip_listing config l ta ?s1) = Inr True"
    using assms(3) should_skip_fst [of config l ta ?s1 s] by simp
  obtain i where "found_tickets (snd (should_skip_listing config l ta ?s1)) (ticket_key l) = Some i"
    using observed_entry [of config l ta s] by (elim exE)
  then show ?thesis
    using assms(1,2) rej by (simp add: process_listing_unfold found_tickets_set_status)
qed

lemma open_step:
  assumes "ready s"
    and "listing_id l \<notin> opened_tickets s"
    and "get_ticket_availability (page_evaluate io) = Inr (Some a)"
    and "block a = Some b"
    and "fst (should_skip_listing config l (Some a) s) = Inr False"
    and "webbrowser_open io = None"
  shows "fst (process_listing config io l s) = Inr True
    \<and> opened_pages (snd (process_listing config io l s)) = opened_pages s @ [(l, block_id b)]"
proof -
  let ?s1 = "record_observation l (s\<lparr>tickets_processed := tickets_processed s + 1\<rparr>)"
  have pass: "fst (should_skip_listing config l (Some a) ?s1) = Inr False"
    using assms(5) should_skip_fst [of config l "Some a" ?s1 s] by simp
  show ?thesis
    using assms(1-4,6) pass by (simp add: process_listing_unfold open_ticket_def)
qed

lemma raise_leaves_checking:
  assumes "fst (process_listing config io l s) = Inl e"
  shows "map_option status (found_tickets (snd (process_listing config io l s)) (ticket_key l))
        = Some ''Checking...''"
proof -
  let ?s1 = "record_observation l (s\<lparr>tickets_processed := tickets_processed s + 1\<rparr>)"
  have r: "ready s"
    using assms by (cases "ready s") (simp_all add: process_listing_unfold)
  have c: "map_option status (found_tickets ?s1 (ticket_key l)) = Some ''Checking...''"
    using record_observation_entry [of l "s\<lparr>tickets_processed := tickets_processed s + 1\<rparr>"]
    by auto
  show ?thesis
  proof (cases "get_ticket_availability (page_evaluate io)")
    case (Inl x)
    with r c show ?thesis by (simp add: process_listing_unfold)
  next
    case (Inr ta)
    show ?thesis
    proof (cases "fst (should_skip_listing config l ta ?s1)")
      case (Inl x)
      with should_skip_state_unchanged(1) [OF Inl] r c Inr show ?thesis
        by (simp add: process_listing_unfold)
    next
      case q: (Inr skip)
      have ns: "\<not> skip" "listing_id l \<notin> opened_tickets s"
        using assms r Inr q by (auto simp: process_listing_unfold split: if_splits)
      with q have "snd (should_skip_listing config l ta ?s1) = ?s1"
        using should_skip_state_unchanged(2) [of config l ta ?s1] by simp
      moreover have "ta = None"
        using assms r Inr q ns
        by (cases ta) (auto simp: process_listing_unfold open_ticket_def split: option.splits)
      ultimately show ?thesis
        using r c Inr q ns by (simp add: process_listing_unfold)
    qed
  qed
qed

subsection \<open>The outcome of a rejected listing\<close>

text \<open>
  Claim C4, evaluated where it fails. One pass over one listing with two seats and
  the availability response \<^verbatim>\<open>{"available": false}\<close>, under the default
  configuration: the filter rejects the listing at the availability check (the last
  status message is \<^verbatim>\<open>Ticket unavailable\<close>), and the outcome recorded under the
  listing's key is \<^verbatim>\<open>Skipped\<close>, not \<^verbatim>\<open>No Longer Available\<close>.
\<close>

theorem unavailable_listing_recorded_as_skipped:
  "map_option status (found_tickets (run_monitoring_loop (default_config ''e1'') None (Inr (Some ''token''))
      [Inr (Some [(\<lparr>listing_id = ''77'', seats = ''2'', listing_type = ''T'', area = ''N'',
        section = ''A'', row = ''5'', price = 80\<rparr>,
       \<lparr>page_evaluate = Inr (JObj [(''available'', JBool False)]),
        webbrowser_open = None\<rparr>)])]
      new_bot) ''A-5-2-77'') = Some ''Skipped''
   \<and> last (status_messages (run_monitoring_loop (default_config ''e1'') None (Inr (Some ''token''))
      [Inr (Some [(\<lparr>listing_id = ''77'', seats = ''2'', listing_type = ''T'', area = ''N'',
        section = ''A'', row = ''5'', price = 80\<rparr>,
       \<lparr>page_evaluate = Inr (JObj [(''available'', JBool False)]),
        webbrowser_open = None\<rparr>)])]
      new_bot)) = (TicketUnavailable, ''dim red'')"
  by (simp add: run_eval)

subsection \<open>An available ticket without a block\<close>

text \<open>
  Claim C3, evaluated where it fails. One pass over one listing with two seats,
  under the default configuration. For the availability response
  \<^verbatim>\<open>{"available": true}\<close>, which has no block, the filter rejects the listing as
  unavailable (the last status message is \<^verbatim>\<open>Ticket unavailable\<close>) and the outcome
  recorded under the listing's key is \<^verbatim>\<open>Skipped\<close>, not \<^verbatim>\<open>No Block Info\<close>; no page
  is opened and the id is not added to the opened set. For a response whose block is
  an object without the key \<^verbatim>\<open>blockId\<close>, \<^verbatim>\<open>_process_listing\<close> raises
  \<^verbatim>\<open>KeyError\<close>. For a response whose \<^verbatim>\<open>blockId\<close> is null, a page is opened for
  the block id \<^verbatim>\<open>None\<close> and the id of the listing is added to the opened set.
\<close>

theorem no_block_listing_recorded_as_skipped:
  "map_option status (found_tickets (run_monitoring_loop (default_config ''e1'') None (Inr (Some ''token''))
      [Inr (Some [(\<lparr>listing_id = ''77'', seats = ''2'', listing_type = ''T'', area = ''N'',
        section = ''A'', row = ''5'', price = 80\<rparr>,
       \<lparr>page_evaluate = Inr (JObj [(''available'', JBool True)]),
        webbrowser_open = None\<rparr>)])]
      new_bot) ''A-5-2-77'') = Some ''Skipped''
   \<and> last (status_messages (run_monitoring_loop (default_config ''e1'') None (Inr (Some ''token''))
      [Inr (Some [(\<lparr>listing_id = ''77'', seats = ''2'', listing_type = ''T'', area = ''N'',
        section = ''A'', row = ''5'', price = 80\<rparr>,
       \<lparr>page_evaluate = Inr (JObj [(''available'', JBool True)]),
        webbrowser_open = None\<rparr>)])]
      new_bot)) = (TicketUnavailable, ''dim red'')
   \<and> opened_pages (run_monitoring_loop (default_config ''e1'') None (Inr (Some ''token''))
      [Inr (Some [(\<lparr>listing_id = ''77'', seats = ''2'', listing_type = ''T'', area = ''N'',
        section = ''A'', row = ''5'', price = 80\<rparr>,
       \<lparr>page_evaluate = Inr (JObj [(''available'', JBool True)]),
        webbrowser_open = None\<rparr>)])]
      new_bot) = []
   \<and> opened_tickets (run_monitoring_loop (default_config ''e1'') None (Inr (Some ''token''))
      [Inr (Some [(\<lparr>listing_id = ''77'', seats = ''2'', listing_type = ''T'', area = ''N'',
        section = ''A'', row = ''5'', price = 80\<rparr>,
       \<lparr>page_evaluate = Inr (JObj [(''available'', JBool True)]),
        webbrowser_open = None\<rparr>)])]
      new_bot) = {}
   \<and> fst (process_listing (default_config ''e1'')
        \<lparr>page_evaluate = Inr (JObj [(''available'', JBool True), (''block'', JObj [(''id'', JStr ''b7'')])]),
        webbrowser_open = None\<rparr>
        \<lparr>listing_id = ''77'', seats = ''2'', listing_type = ''T'', area = ''N'',
        section = ''A'', row = ''5'', price = 80\<rparr>
        (run_monitoring_loop (default_config ''e1'') None (Inr (Some ''token'')) [] new_bot)) = Inl KeyError
   \<and> opened_pages (run_monitoring_loop (default_config ''e1'') None (Inr (Some ''token''))
      [Inr (Some [(\<lparr>listing_id = ''77'', seats = ''2'', listing_type = ''T'', area = ''N'',
        section = ''A'', row = ''5'', price = 80\<rparr>,
       \<lparr>page_evaluate = Inr (JObj [(''available'', JBool True), (''block'', JObj [(''blockId'', JNull)])]),
        webbrowser_open = None\<rparr>)])]
      new_bot) =
       [(\<lparr>listing_id = ''77'', seats = ''2'', listing_type = ''T'', area = ''N'',
        section = ''A'', row = ''5'', price = 80\<rparr>, JNull)]
   \<and> opened_tickets (run_monitoring_loop (default_config ''e1'') None (Inr (Some ''token''))
      [Inr (Some [(\<lparr>listing_id = ''77'', seats = ''2'', listing_type = ''T'', area = ''N'',
        section = ''A'', row = ''5'', price = 80\<rparr>,
       \<lparr>page_evaluate = Inr (JObj [(''available'', JBool True), (''block'', JObj [(''blockId'', JNull)])]),
        webbrowser_open = None\<rparr>)])]
      new_bot) = {''77''}"
  by (simp add: run_eval)

subsection \<open>A raise while a candidate is processed\<close>

lemma process_listings_append:
  "fst (process_listings config pre s) = None \<Longrightarrow>
     process_listings config (pre @ cs) s =
       process_listings config cs (snd (process_listings config pre s))"
proof (induction pre arbitrary: s)
  case Nil
  then show ?case by simp
next
  case (Cons c pre)
  let ?p = "process_listing config (snd c) (fst c) (s\<lparr>found_log := found_log s @ [fst c]\<rparr>)"
  show ?case
  proof (cases "fst ?p")
    case (Inl e)
    then have "process_listings config (c # pre) s = (Some e, snd ?p)"
      by (simp only: process_listings_Cons sum.case)
    with Cons.prems show ?thesis by (simp only: fst_conv option.distinct)
  next
    case (Inr b)
    then have eq: "process_listings config (c # pre) s = process_listings config pre (snd ?p)"
      by (simp only: process_listings_Cons sum.case)
    from Inr have eq': "process_listings config (c # (pre @ cs)) s =
        process_listings config (pre @ cs) (snd ?p)"
      by (simp only: process_listings_Cons sum.case)
    from Cons.prems eq have "fst (process_listings config pre (snd ?p)) = None"
      by (simp only:)
    from Cons.IH [OF this] show ?thesis
      by (simp only: append_Cons eq eq')
  qed
qed

lemma failed_open_step:
  assumes "ready s"
    and "listing_id l \<notin> opened_tickets s"
    and "get_ticket_availability (page_evaluate io) = Inr (Some a)"
    and "block a = Some b"
    and "fst (should_skip_listing config l (Some a) s) = Inr False"
    and "webbrowser_open io = Some x"
  shows "fst (process_listing config io l s) = Inr False
    \<and> map_option status (found_tickets (snd (process_listing config io l s)) (ticket_key l))
        = Some ''Failed to Open''
    \<and> opened_pages (snd (process_listing config io l s)) = opened_pages s
    \<and> opened_tickets (snd (process_listing config io l s)) = opened_tickets s"
proof -
  let ?s1 = "record_observation l (s\<lparr>tickets_processed := tickets_processed s + 1\<rparr>)"
  have pass: "fst (should_skip_listing config l (Some a) ?s1) = Inr False"
    using assms(5) should_skip_fst [of config l "Some a" ?s1 s] by simp
  obtain i where "found_tickets (snd (should_skip_listing config l (Some a) ?s1)) (ticket_key l) = Some i"
    using observed_entry [of config l "Some a" s] by (elim exE)
  then show ?thesis
    using assms(1-4,6) pass
    by (simp add: process_listing_unfold open_ticket_def found_tickets_set_status)
qed

text \<open>
  Claim C2, as amended. Let the sorted candidates of a pass be \<open>pre\<close>, then \<open>c\<close>, then
  \<open>post\<close>, let no candidate of \<open>pre\<close> raise and let \<^verbatim>\<open>_process_listing\<close> raise \<open>e\<close> for
  \<open>c\<close> (from the availability request, the reading of its response or
  \<^verbatim>\<open>int(listing.seats)\<close>). Then the raise leaves the for loop and the handler of the
  pass catches it: the pass ends in the state the raise left, with the status
  message \<^verbatim>\<open>Error: e\<close> added; the pass has logged the candidates of \<open>pre\<close> and \<open>c\<close> and
  none of \<open>post\<close>; the entry of \<open>c\<close> stays at \<^verbatim>\<open>Checking...\<close>; and the loop goes on
  with the next pass. Only a raise of \<^verbatim>\<open>webbrowser.open\<close> is handled inside
  \<^verbatim>\<open>_process_listing\<close>: the call returns \<open>False\<close> with the outcome
  \<^verbatim>\<open>Failed to Open\<close>, and the id is not added to the opened set.
\<close>

theorem raise_ends_the_pass:
  assumes "sort_key (\<lambda>c. section (fst c)) options = pre @ c # post"
    and "fst (process_listings config pre
               (add_status_message (TicketsFound (length options)) ''cyan bold'' s)) = None"
    and "t = snd (process_listings config pre
               (add_status_message (TicketsFound (length options)) ''cyan bold'' s))"
    and "fst (process_listing config (snd c) (fst c) (t\<lparr>found_log := found_log t @ [fst c]\<rparr>)) = Inl e"
  shows "monitoring_cycle config (Inr (Some options)) s =
           add_status_message (ErrorMessage e) ''red''
             (snd (process_listing config (snd c) (fst c) (t\<lparr>found_log := found_log t @ [fst c]\<rparr>)))
    \<and> found_log (monitoring_cycle config (Inr (Some options)) s) = found_log s @ map fst pre @ [fst c]
    \<and> map_option status
          (found_tickets (monitoring_cycle config (Inr (Some options)) s) (ticket_key (fst c)))
        = Some ''Checking...''
    \<and> monitoring_cycles config (Inr (Some options) # later) s =
          monitoring_cycles config later (monitoring_cycle config (Inr (Some options)) s)
    \<and> (ready u \<and> listing_id l \<notin> opened_tickets u
         \<and> get_ticket_availability (page_evaluate io) = Inr (Some a)
         \<and> block a = Some b
         \<and> fst (should_skip_listing config l (Some a) u) = Inr False
         \<and> webbrowser_open io = Some x \<longrightarrow>
        fst (process_listing config io l u) = Inr False
        \<and> map_option status (found_tickets (snd (process_listing config io l u)) (ticket_key l))
            = Some ''Failed to Open''
        \<and> opened_tickets (snd (process_listing config io l u)) = opened_tickets u)"
proof -
  let ?s1 = "add_status_message (TicketsFound (length options)) ''cyan bold'' s"
  let ?p = "process_listing config (snd c) (fst c) (t\<lparr>found_log := found_log t @ [fst c]\<rparr>)"
  have ne: "options \<noteq> []"
  proof
    assume "options = []"
    with assms(1) show False by simp
  qed
  have t: "snd (process_listings config pre ?s1) = t" using assms(3) by simp
  have "process_listings config (pre @ c # post) ?s1 = process_listings config (c # post) t"
    using process_listings_append [OF assms(2), of "c # post"] by (simp only: t)
  also have "\<dots> = (Some e, snd ?p)"
    using assms(4) by (simp only: process_listings_Cons sum.case)
  finally have run: "process_listings config (sort_key (\<lambda>c. section (fst c)) options) ?s1 = (Some e, snd ?p)"
    by (simp only: assms(1))
  have cyc: "monitoring_cycle config (Inr (Some options)) s =
      add_status_message (ErrorMessage e) ''red'' (snd ?p)"
    using ne by (simp add: monitoring_cycle_def run)
  have "found_log t = found_log ?s1 @ map fst pre"
    using process_listings_found_log_complete [OF assms(2)] by (simp only: t)
  then have logt: "found_log t = found_log s @ map fst pre" by simp
  have log: "found_log (monitoring_cycle config (Inr (Some options)) s) =
      found_log s @ map fst pre @ [fst c]"
    by (simp add: cyc logt)
  have st: "map_option status
          (found_tickets (monitoring_cycle config (Inr (Some options)) s) (ticket_key (fst c)))
        = Some ''Checking...''"
    using raise_leaves_checking [OF assms(4)] by (simp add: cyc)
  have loop: "monitoring_cycles config (Inr (Some options) # later) s =
          monitoring_cycles config later (monitoring_cycle config (Inr (Some options)) s)"
    by simp
  have contained: "fst (process_listing config io l u) = Inr False
        \<and> map_option status (found_tickets (snd (process_listing config io l u)) (ticket_key l))
            = Some ''Failed to Open''
        \<and> opened_tickets (snd (process_listing config io l u)) = opened_tickets u"
    if "ready u \<and> listing_id l \<notin> opened_tickets u
         \<and> get_ticket_availability (page_evaluate io) = Inr (Some a)
         \<and> block a = Some b
         \<and> fst (should_skip_listing config l (Some a) u) = Inr False
         \<and> webbrowser_open io = Some x"
    using failed_open_step [of u l io a b config x] that by simp
  from cyc log st loop contained show ?thesis by (intro conjI impI) simp_all
qed

theorem raise_ends_the_pass_witness:
  "found_log (monitoring_cycle (default_config ''e1'') (Inr (Some [(\<lparr>listing_id = ''10'', seats = ''2'', listing_type = ''T'', area = ''N'',
        section = ''B'', row = ''1'', price = 80\<rparr>,
       \<lparr>page_evaluate = Inr (JObj [(''available'', JBool True), (''block'', JObj [(''blockId'', JStr ''b7'')])]),
        webbrowser_open = None\<rparr>),
      (\<lparr>listing_id = ''77'', seats = ''2'', listing_type = ''T'', area = ''N'',
        section = ''A'', row = ''5'', price = 80\<rparr>,
       \<lparr>page_evaluate = Inr (JObj [(''available'', JBool True), (''block'', JObj [(''id'', JStr ''b7'')])]),
        webbrowser_open = None\<rparr>)])) (add_status_message LogsWrittenTo ''dim''
        (add_status_message EnteringMainLoop ''cyan''
           (snd (initialize None (Inr (Some ''token'')) new_bot))))) =
     [\<lparr>listing_id = ''77'', seats = ''2'', listing_type = ''T'', area = ''N'',
        section = ''A'', row = ''5'', price = 80\<rparr>]
   \<and> map_option status (found_tickets (monitoring_cycle (default_config ''e1'') (Inr (Some [(\<lparr>listing_id = ''10'', seats = ''2'', listing_type = ''T'', area = ''N'',
        section = ''B'', row = ''1'', price = 80\<rparr>,
       \<lparr>page_evaluate = Inr (JObj [(''available'', JBool True), (''block'', JObj [(''blockId'', JStr ''b7'')])]),
        webbrowser_open = None\<rparr>),
      (\<lparr>listing_id = ''77'', seats = ''2'', listing_type = ''T'', area = ''N'',
        section = ''A'', row = ''5'', price = 80\<rparr>,
       \<lparr>page_evaluate = Inr (JObj [(''available'', JBool True), (''block'', JObj [(''id'', JStr ''b7'')])]),
        webbrowser_open = None\<rparr>)])) (add_status_message LogsWrittenTo ''dim''
        (add_status_message EnteringMainLoop ''cyan''
           (snd (initialize None (Inr (Some ''token'')) new_bot))))) ''A-5-2-77'') = Some ''Checking...''"
proof -
  have h1: "sort_key (\<lambda>c. section (fst c))
      [(\<lparr>listing_id = ''10'', seats = ''2'', listing_type = ''T'', area = ''N'',
        section = ''B'', row = ''1'', price = 80\<rparr>,
       \<lparr>page_evaluate = Inr (JObj [(''available'', JBool True), (''block'', JObj [(''blockId'', JStr ''b7'')])]),
        webbrowser_open = None\<rparr>),
      (\<lparr>listing_id = ''77'', seats = ''2'', listing_type = ''T'', area = ''N'',
        section = ''A'', row = ''5'', price = 80\<rparr>,
       \<lparr>page_evaluate = Inr (JObj [(''available'', JBool True), (''block'', JObj [(''id'', JStr ''b7'')])]),
        webbrowser_open = None\<rparr>)] =
      [] @ (\<lparr>listing_id = ''77'', seats = ''2'', listing_type = ''T'', area = ''N'',
        section = ''A'', row = ''5'', price = 80\<rparr>,
       \<lparr>page_evaluate = Inr (JObj [(''available'', JBool True), (''block'', JObj [(''id'', JStr ''b7'')])]),
        webbrowser_open = None\<rparr>) #
      [(\<lparr>listing_id = ''10'', seats = ''2'', listing_type = ''T'', area = ''N'',
        section = ''B'', row = ''1'', price = 80\<rparr>,
       \<lparr>page_evaluate = Inr (JObj [(''available'', JBool True), (''block'', JObj [(''blockId'', JStr ''b7'')])]),
        webbrowser_open = None\<rparr>)]"
    by simp
  have h2: "fst (process_listings (default_config ''e1'') []
         (add_status_message
            (TicketsFound (length
              [(\<lparr>listing_id = ''10'', seats = ''2'', listing_type = ''T'', area = ''N'',
        section = ''B'', row = ''1'', price = 80\<rparr>,
       \<lparr>page_evaluate = Inr (JObj [(''available'', JBool True), (''block'', JObj [(''blockId'', JStr ''b7'')])]),
        webbrowser_open = None\<rparr>),
      (\<lparr>listing_id = ''77'', seats = ''2'', listing_type = ''T'', area = ''N'',
        section = ''A'', row = ''5'', price = 80\<rparr>,
       \<lparr>page_evaluate = Inr (JObj [(''available'', JBool True), (''block'', JObj [(''id'', JStr ''b7'')])]),
        webbrowser_open = None\<rparr>)]))
            ''cyan bold''
            (add_status_message LogsWrittenTo ''dim''
        (add_status_message EnteringMainLoop ''cyan''
           (snd (initialize None (Inr (Some ''token'')) new_bot)))))) = None"
    by simp
  have h4: "fst (process_listing (default_config ''e1'')
        (snd (\<lparr>listing_id = ''77'', seats = ''2'', listing_type = ''T'', area = ''N'',
        section = ''A'', row = ''5'', price = 80\<rparr>,
       \<lparr>page_evaluate = Inr (JObj [(''available'', JBool True), (''block'', JObj [(''id'', JStr ''b7'')])]),
        webbrowser_open = None\<rparr>))
        (fst (\<lparr>listing_id = ''77'', seats = ''2'', listing_type = ''T'', area = ''N'',
        section = ''A'', row = ''5'', price = 80\<rparr>,
       \<lparr>page_evaluate = Inr (JObj [(''available'', JBool True), (''block'', JObj [(''id'', JStr ''b7'')])]),
        webbrowser_open = None\<rparr>))
        ((snd (process_listings (default_config ''e1'') []
         (add_status_message
            (TicketsFound (length
              [(\<lparr>listing_id = ''10'', seats = ''2'', listing_type = ''T'', area = ''N'',
        section = ''B'', row = ''1'', price = 80\<rparr>,
       \<lparr>page_evaluate = Inr (JObj [(''available'', JBool True), (''block'', JObj [(''blockId'', JStr ''b7'')])]),
        webbrowser_open = None\<rparr>),
      (\<lparr>listing_id = ''77'', seats = ''2'', listing_type = ''T'', area = ''N'',
        section = ''A'', row = ''5'', price = 80\<rparr>,
       \<lparr>page_evaluate = Inr (JObj [(''available'', JBool True), (''block'', JObj [(''id'', JStr ''b7'')])]),
        webbrowser_open = None\<rparr>)]))
            ''cyan bold''
            (add_status_message LogsWrittenTo ''dim''
        (add_status_message EnteringMainLoop ''cyan''
           (snd (initialize None (Inr (Some ''token'')) new_bot)))))))\<lparr>found_log := found_log (snd (process_listings (default_config ''e1'') []
         (add_status_message
            (TicketsFound (length
              [(\<lparr>listing_id = ''10'', seats = ''2'', listing_type = ''T'', area = ''N'',
        section = ''B'', row = ''1'', price = 80\<rparr>,
       \<lparr>page_evaluate = Inr (JObj [(''available'', JBool True), (''block'', JObj [(''blockId'', JStr ''b7'')])]),
        webbrowser_open = None\<rparr>),
      (\<lparr>listing_id = ''77'', seats = ''2'', listing_type = ''T'', area = ''N'',
        section = ''A'', row = ''5'', price = 80\<rparr>,
       \<lparr>page_evaluate = Inr (JObj [(''available'', JBool True), (''block'', JObj [(''id'', JStr ''b7'')])]),
        webbrowser_open = None\<rparr>)]))
            ''cyan bold''
            (add_status_message LogsWrittenTo ''dim''
        (add_status_message EnteringMainLoop ''cyan''
           (snd (initialize None (Inr (Some ''token'')) new_bot)))))))
           @ [fst (\<lparr>listing_id = ''77'', seats = ''2'', listing_type = ''T'', area = ''N'',
        section = ''A'', row = ''5'', price = 80\<rparr>,
       \<lparr>page_evaluate = Inr (JObj [(''available'', JBool True), (''block'', JObj [(''id'', JStr ''b7'')])]),
        webbrowser_open = None\<rparr>)]\<rparr>)) = Inl KeyError"
    by (simp add: run_eval)
  note t = raise_ends_the_pass [OF h1 h2 refl h4]
  have k: "ticket_key (fst (\<lparr>listing_id = ''77'', seats = ''2'', listing_type = ''T'', area = ''N'',
        section = ''A'', row = ''5'', price = 80\<rparr>,
       \<lparr>page_evaluate = Inr (JObj [(''available'', JBool True), (''block'', JObj [(''id'', JStr ''b7'')])]),
        webbrowser_open = None\<rparr>)) = ''A-5-2-77''"
    by (simp add: ticket_key_def)
  have "found_log (monitoring_cycle (default_config ''e1'') (Inr (Some [(\<lparr>listing_id = ''10'', seats = ''2'', listing_type = ''T'', area = ''N'',
        section = ''B'', row = ''1'', price = 80\<rparr>,
       \<lparr>page_evaluate = Inr (JObj [(''available'', JBool True), (''block'', JObj [(''blockId'', JStr ''b7'')])]),
        webbrowser_open = None\<rparr>),
      (\<lparr>listing_id = ''77'', seats = ''2'', listing_type = ''T'', area = ''N'',
        section = ''A'', row = ''5'', price = 80\<rparr>,
       \<lparr>page_evaluate = Inr (JObj [(''available'', JBool True), (''block'', JObj [(''id'', JStr ''b7'')])]),
        webbrowser_open = None\<rparr>)])) (add_status_message LogsWrittenTo ''dim''
        (add_status_message EnteringMainLoop ''cyan''
           (snd (initialize None (Inr (Some ''token'')) new_bot))))) =
      found_log (add_status_message LogsWrittenTo ''dim''
        (add_status_message EnteringMainLoop ''cyan''
           (snd (initialize None (Inr (Some ''token'')) new_bot))))
      @ map fst ([] :: candidate list) @ [fst (\<lparr>listing_id = ''77'', seats = ''2'', listing_type = ''T'', area = ''N'',
        section = ''A'', row = ''5'', price = 80\<rparr>,
       \<lparr>page_evaluate = Inr (JObj [(''available'', JBool True), (''block'', JObj [(''id'', JStr ''b7'')])]),
        webbrowser_open = None\<rparr>)]"
    by (rule t [THEN conjunct2, THEN conjunct1])
  also have "\<dots> = [\<lparr>listing_id = ''77'', seats = ''2'', listing_type = ''T'', area = ''N'',
        section = ''A'', row = ''5'', price = 80\<rparr>]"
    by (simp add: run_eval)
  finally have a: "found_log (monitoring_cycle (default_config ''e1'') (Inr (Some [(\<lparr>listing_id = ''10'', seats = ''2'', listing_type = ''T'', area = ''N'',
        section = ''B'', row = ''1'', price = 80\<rparr>,
       \<lparr>page_evaluate = Inr (JObj [(''available'', JBool True), (''block'', JObj [(''blockId'', JStr ''b7'')])]),
        webbrowser_open = None\<rparr>),
      (\<lparr>listing_id = ''77'', seats = ''2'', listing_type = ''T'', area = ''N'',
        section = ''A'', row = ''5'', price = 80\<rparr>,
       \<lparr>page_evaluate = Inr (JObj [(''available'', JBool True), (''block'', JObj [(''id'', JStr ''b7'')])]),
        webbrowser_open = None\<rparr>)])) (add_status_message LogsWrittenTo ''dim''
        (add_status_message EnteringMainLoop ''cyan''
           (snd (initialize None (Inr (Some ''token'')) new_bot))))) =
     [\<lparr>listing_id = ''77'', seats = ''2'', listing_type = ''T'', area = ''N'',
        section = ''A'', row = ''5'', price = 80\<rparr>]" .
  have b: "map_option status (found_tickets (monitoring_cycle (default_config ''e1'') (Inr (Some [(\<lparr>listing_id = ''10'', seats = ''2'', listing_type = ''T'', area = ''N'',
        section = ''B'', row = ''1'', price = 80\<rparr>,
       \<lparr>page_evaluate = Inr (JObj [(''available'', JBool True), (''block'', JObj [(''blockId'', JStr ''b7'')])]),
        webbrowser_open = None\<rparr>),
      (\<lparr>listing_id = ''77'', seats = ''2'', listing_type = ''T'', area = ''N'',
        section = ''A'', row = ''5'', price = 80\<rparr>,
       \<lparr>page_evaluate = Inr (JObj [(''available'', JBool True), (''block'', JObj [(''id'', JStr ''b7'')])]),
        webbrowser_open = None\<rparr>)])) (add_status_message LogsWrittenTo ''dim''
        (add_status_message EnteringMainLoop ''cyan''
           (snd (initialize None (Inr (Some ''token'')) new_bot)))))
      (ticket_key (fst (\<lparr>listing_id = ''77'', seats = ''2'', listing_type = ''T'', area = ''N'',
        section = ''A'', row = ''5'', price = 80\<rparr>,
       \<lparr>page_evaluate = Inr (JObj [(''available'', JBool True), (''block'', JObj [(''id'', JStr ''b7'')])]),
        webbrowser_open = None\<rparr>)))) = Some ''Checking...''"
    by (rule t [THEN conjunct2, THEN conjunct2, THEN conjunct1])
  show ?thesis
    by (intro conjI a b [unfolded k])
qed

text \<open>
  Claim C2 as stated fails. In a pass over section B (a ticket that would be opened,
  as the pass over B alone shows) and section A (whose availability response has a
  block without \<^verbatim>\<open>blockId\<close>, so that reading it raises \<^verbatim>\<open>KeyError\<close>), A is
  processed first and its raise ends the pass: B is neither logged nor recorded nor
  opened.
\<close>

theorem raise_skips_later_candidates_counterexample:
  "found_log (run_monitoring_loop (default_config ''e1'') None (Inr (Some ''token''))
      [Inr (Some [(\<lparr>listing_id = ''10'', seats = ''2'', listing_type = ''T'', area = ''N'',
        section = ''B'', row = ''1'', price = 80\<rparr>,
       \<lparr>page_evaluate = Inr (JObj [(''available'', JBool True), (''block'', JObj [(''blockId'', JStr ''b7'')])]),
        webbrowser_open = None\<rparr>),
      (\<lparr>listing_id = ''77'', seats = ''2'', listing_type = ''T'', area = ''N'',
        section = ''A'', row = ''5'', price = 80\<rparr>,
       \<lparr>page_evaluate = Inr (JObj [(''available'', JBool True), (''block'', JObj [(''id'', JStr ''b7'')])]),
        webbrowser_open = None\<rparr>)])]
      new_bot) =
     [\<lparr>listing_id = ''77'', seats = ''2'', listing_type = ''T'', area = ''N'',
        section = ''A'', row = ''5'', price = 80\<rparr>]
   \<and> found_tickets (run_monitoring_loop (default_config ''e1'') None (Inr (Some ''token''))
      [Inr (Some [(\<lparr>listing_id = ''10'', seats = ''2'', listing_type = ''T'', area = ''N'',
        section = ''B'', row = ''1'', price = 80\<rparr>,
       \<lparr>page_evaluate = Inr (JObj [(''available'', JBool True), (''block'', JObj [(''blockId'', JStr ''b7'')])]),
        webbrowser_open = None\<rparr>),
      (\<lparr>listing_id = ''77'', seats = ''2'', listing_type = ''T'', area = ''N'',
        section = ''A'', row = ''5'', price = 80\<rparr>,
       \<lparr>page_evaluate = Inr (JObj [(''available'', JBool True), (''block'', JObj [(''id'', JStr ''b7'')])]),
        webbrowser_open = None\<rparr>)])]
      new_bot) ''B-1-2-10'' = None
   \<and> opened_pages (run_monitoring_loop (default_config ''e1'') None (Inr (Some ''token''))
      [Inr (Some [(\<lparr>listing_id = ''10'', seats = ''2'', listing_type = ''T'', area = ''N'',
        section = ''B'', row = ''1'', price = 80\<rparr>,
       \<lparr>page_evaluate = Inr (JObj [(''available'', JBool True), (''block'', JObj [(''blockId'', JStr ''b7'')])]),
        webbrowser_open = None\<rparr>),
      (\<lparr>listing_id = ''77'', seats = ''2'', listing_type = ''T'', area = ''N'',
        section = ''A'', row = ''5'', price = 80\<rparr>,
       \<lparr>page_evaluate = Inr (JObj [(''available'', JBool True), (''block'', JObj [(''id'', JStr ''b7'')])]),
        webbrowser_open = None\<rparr>)])]
      new_bot) = []
   \<and> tickets_processed (run_monitoring_loop (default_config ''e1'') None (Inr (Some ''token''))
      [Inr (Some [(\<lparr>listing_id = ''10'', seats = ''2'', listing_type = ''T'', area = ''N'',
        section = ''B'', row = ''1'', price = 80\<rparr>,
       \<lparr>page_evaluate = Inr (JObj [(''available'', JBool True), (''block'', JObj [(''blockId'', JStr ''b7'')])]),
        webbrowser_open = None\<rparr>),
      (\<lparr>listing_id = ''77'', seats = ''2'', listing_type = ''T'', area = ''N'',
        section = ''A'', row = ''5'', price = 80\<rparr>,
       \<lparr>page_evaluate = Inr (JObj [(''available'', JBool True), (''block'', JObj [(''id'', JStr ''b7'')])]),
        webbrowser_open = None\<rparr>)])]
      new_bot) = 1
   \<and> last (status_messages (run_monitoring_loop (default_config ''e1'') None (Inr (Some ''token''))
      [Inr (Some [(\<lparr>listing_id = ''10'', seats = ''2'', listing_type = ''T'', area = ''N'',
        section = ''B'', row = ''1'', price = 80\<rparr>,
       \<lparr>page_evaluate = Inr (JObj [(''available'', JBool True), (''block'', JObj [(''blockId'', JStr ''b7'')])]),
        webbrowser_open = None\<rparr>),
      (\<lparr>listing_id = ''77'', seats = ''2'', listing_type = ''T'', area = ''N'',
        section = ''A'', row = ''5'', price = 80\<rparr>,
       \<lparr>page_evaluate = Inr (JObj [(''available'', JBool True), (''block'', JObj [(''id'', JStr ''b7'')])]),
        webbrowser_open = None\<rparr>)])]
      new_bot)) = (ErrorMessage KeyError, ''red'')
   \<and> opened_pages (run_monitoring_loop (default_config ''e1'') None (Inr (Some ''token''))
      [Inr (Some [(\<lparr>listing_id = ''10'', seats = ''2'', listing_type = ''T'', area = ''N'',
        section = ''B'', row = ''1'', price = 80\<rparr>,
       \<lparr>page_evaluate = Inr (JObj [(''available'', JBool True), (''block'', JObj [(''blockId'', JStr ''b7'')])]),
        webbrowser_open = None\<rparr>)])]
      new_bot) =
     [(\<lparr>listing_id = ''10'', seats = ''2'', listing_type = ''T'', area = ''N'',
        section = ''B'', row = ''1'', price = 80\<rparr>, JStr ''b7'')]"
  by (simp add: run_eval)

end
